theory Spec2Isabelle
  imports Main
begin

section \<open>Data model (shared/schema.ts)\<close>

text \<open>
  The enums of the schema are datatypes, the tables are lists of row records, kept in
  insertion order. Identifiers are the integers of the \<open>serial\<close> columns. Amounts
  (\<open>numeric(10,2)\<close>) are integers counted in cents. A point in time is an integer
  number of milliseconds since the epoch. A \<open>date\<close> column holds a calendar date,
  kept as the instant of its midnight, which is what \<open>new Date(row.expirationDate)\<close>
  reads back; a date in a payload is the date and time of day that its string writes,
  taken as an instant of UTC.
  An id that a request names is taken to lie in the range of the integer column. Of
  the clients and products tables the free-text columns that no handler below reads
  (address, city, description and the like) are left out.
\<close>

datatype user_role = Admin | Sales | Support | Client

datatype subscription_type = Monthly | Quarterly | Yearly

datatype license_status = Active | Expired | Pending | Revoked

datatype ticket_status = New | In_progress | Resolved | Closed

datatype ticket_priority = Low | Medium | High | Critical

datatype transaction_status = TxPending | Completed | Refunded | Failed

type_synonym instant = int

text \<open>The authenticated user of a request (\<open>req.user\<close>): its id and its role.\<close>

record user =
  u_id :: int
  u_role :: user_role

record client =
  cl_id :: int
  cl_userId :: int
  cl_companyName :: string
  cl_contactEmail :: "string option"
  cl_createdAt :: instant
  cl_updatedAt :: instant

record product =
  prod_id :: int
  prod_name :: string
  prod_price :: int

record subscription =
  sub_id :: int
  sub_clientId :: int
  sub_productId :: int
  sub_subscriptionType :: subscription_type
  sub_startDate :: instant
  sub_endDate :: instant
  sub_price :: int
  sub_autoRenew :: bool
  sub_notes :: "string option"
  sub_createdAt :: instant
  sub_updatedAt :: instant

record license =
  lic_id :: int
  lic_subscriptionId :: int
  lic_licenseKey :: string
  lic_status :: license_status
  lic_activationDate :: instant
  lic_expirationDate :: instant
  lic_lastChecked :: "instant option"
  lic_notificationsSent :: int
  lic_createdAt :: instant
  lic_updatedAt :: instant

record invoice =
  inv_id :: int
  inv_clientId :: int
  inv_subscriptionId :: "int option"
  inv_invoiceNumber :: string
  inv_amount :: int
  inv_tax :: int
  inv_totalAmount :: int
  inv_issueDate :: instant
  inv_dueDate :: instant
  inv_isPaid :: bool
  inv_notes :: "string option"
  inv_createdAt :: instant
  inv_updatedAt :: instant

record transaction =
  tx_id :: int
  tx_clientId :: int
  tx_invoiceId :: "int option"
  tx_amount :: int
  tx_status :: transaction_status
  tx_paymentMethod :: "string option"
  tx_transactionDate :: instant
  tx_notes :: "string option"
  tx_createdAt :: instant
  tx_updatedAt :: instant

record ticket =
  tk_id :: int
  tk_clientId :: int
  tk_title :: string
  tk_description :: string
  tk_status :: ticket_status
  tk_priority :: ticket_priority
  tk_assignedTo :: "int option"
  tk_createdAt :: instant
  tk_updatedAt :: instant
  tk_closedAt :: "instant option"

text \<open>
  One entry of the answer of \<open>GET /api/dashboard/expiring-licenses\<close>.
\<close>

record license_alert =
  la_id :: int
  la_licenseKey :: string
  la_expirationDate :: instant
  la_expiresIn :: int
  la_company :: string
  la_clientId :: int
  la_subscriptionId :: int

text \<open>
  The insert schemas (\<open>createInsertSchema(t).omit({id, createdAt, updatedAt})\<close>):
  a column that is nullable or has a default is optional, the others are required.
  Their \<open>.partial()\<close> forms, which the PATCH routes parse, make every field optional;
  for a nullable column the outer \<open>option\<close> is "field absent" and the inner one is
  SQL NULL.
\<close>

record insert_license =
  il_subscriptionId :: int
  il_licenseKey :: string
  il_status :: "license_status option"
  il_activationDate :: instant
  il_expirationDate :: instant
  il_lastChecked :: "instant option"
  il_notificationsSent :: "int option"

record partial_license =
  pl_subscriptionId :: "int option"
  pl_licenseKey :: "string option"
  pl_status :: "license_status option"
  pl_activationDate :: "instant option"
  pl_expirationDate :: "instant option"
  pl_lastChecked :: "instant option option"
  pl_notificationsSent :: "int option"

record insert_subscription =
  is_clientId :: int
  is_productId :: int
  is_subscriptionType :: subscription_type
  is_startDate :: instant
  is_endDate :: instant
  is_price :: int
  is_autoRenew :: "bool option"
  is_notes :: "string option"

record partial_subscription =
  ps_clientId :: "int option"
  ps_productId :: "int option"
  ps_subscriptionType :: "subscription_type option"
  ps_startDate :: "instant option"
  ps_endDate :: "instant option"
  ps_price :: "int option"
  ps_autoRenew :: "bool option"
  ps_notes :: "string option option"

record partial_invoice =
  pi_clientId :: "int option"
  pi_subscriptionId :: "int option option"
  pi_invoiceNumber :: "string option"
  pi_amount :: "int option"
  pi_tax :: "int option"
  pi_totalAmount :: "int option"
  pi_issueDate :: "instant option"
  pi_dueDate :: "instant option"
  pi_isPaid :: "bool option"
  pi_notes :: "string option option"

record insert_transaction =
  it_clientId :: int
  it_invoiceId :: "int option"
  it_amount :: int
  it_status :: "transaction_status option"
  it_paymentMethod :: "string option"
  it_transactionDate :: "instant option"
  it_notes :: "string option"

text \<open>The database: one list of rows per table and the sequences behind the serial ids.\<close>

record db =
  clients :: "client list"
  products :: "product list"
  subscriptions :: "subscription list"
  licenses :: "license list"
  invoices :: "invoice list"
  transactions :: "transaction list"
  tickets :: "ticket list"
  subscriptions_id_seq :: int
  licenses_id_seq :: int
  transactions_id_seq :: int

section \<open>Environment: clock, randomness, failing statements\<close>

text \<open>
  What a handler reads from outside the database is a parameter: the value of
  \<open>new Date()\<close>, the string \<open>randomUUID()\<close> yields, and the set of tables on
  which a statement currently fails (the driver throws), so that the \<open>catch\<close>
  branches of the handlers are branches of the model. The server clock is read in UTC.
\<close>

datatype table = Clients | Products | Subscriptions | Licenses | Invoices | Transactions | Tickets

record jsdate =
  getFullYear :: int
  getMonth :: nat
  getDate :: nat
  msOfDay :: nat

record env =
  clock :: jsdate
  randomUUID :: string
  outage :: "table set"

definition msPerDay :: int where
  "msPerDay = 86400000"

text \<open>
  Days from 1970-01-01 to the proleptic Gregorian date \<open>y\<close>-\<open>m\<close>-\<open>d\<close>
  (\<open>m\<close> from 1 to 12), which is what the \<open>Date\<close> constructor computes.
\<close>

definition days_from_civil :: "int \<Rightarrow> int \<Rightarrow> int \<Rightarrow> int" where
  "days_from_civil y m d =
     (let y1 = (if m \<le> 2 then y - 1 else y);
          era = y1 div 400;
          yoe = y1 - era * 400;
          doy = (153 * (if m > 2 then m - 3 else m + 9) + 2) div 5 + d - 1;
          doe = yoe * 365 + yoe div 4 - yoe div 100 + doy
      in era * 146097 + doe - 719468)"

definition getTime :: "jsdate \<Rightarrow> instant" where
  "getTime d =
     days_from_civil (getFullYear d) (int (getMonth d) + 1) (int (getDate d)) * msPerDay
       + int (msOfDay d)"

text \<open>date-fns: \<open>addDays\<close> on an instant, \<open>differenceInDays\<close> as the number of full
  days between two instants, truncated towards zero.\<close>

definition addDays :: "instant \<Rightarrow> int \<Rightarrow> instant" where
  "addDays t n = t + n * msPerDay"

definition differenceInDays :: "instant \<Rightarrow> instant \<Rightarrow> int" where
  "differenceInDays later earlier =
     (if earlier \<le> later then (later - earlier) div msPerDay
      else - ((earlier - later) div msPerDay))"

section \<open>Handlers as state transformers\<close>

text \<open>
  An \<open>async\<close> computation takes the database and returns either the exception it
  throws or its value, together with the database it leaves. \<open>await m k\<close> is
  \<open>const x = await m; k(x)\<close>: an exception of \<open>m\<close> skips \<open>k\<close>.
\<close>

datatype exn = ZodError | StatementFailed | OutOfRange | ForeignKeyViolation | UniqueViolation

type_synonym 'a async = "db \<Rightarrow> (exn + 'a) \<times> db"

definition resolve :: "'a \<Rightarrow> 'a async" where
  "resolve x d = (Inr x, d)"

definition throw :: "exn \<Rightarrow> 'a async" where
  "throw e d = (Inl e, d)"

definition await :: "'a async \<Rightarrow> ('a \<Rightarrow> 'b async) \<Rightarrow> 'b async" where
  "await m k d = (case m d of (Inl e, d') \<Rightarrow> (Inl e, d') | (Inr x, d') \<Rightarrow> k x d')"

text \<open>A statement on table \<open>t\<close>: it throws, changing nothing, while \<open>t\<close> is failing.\<close>

definition stmt :: "env \<Rightarrow> table \<Rightarrow> 'a async \<Rightarrow> 'a async" where
  "stmt e t q d = (if t \<in> outage e then (Inl StatementFailed, d) else q d)"

text \<open>The outcome of \<open>schema.parse(req.body)\<close>: a \<open>ZodError\<close> or the typed payload.\<close>

datatype 'a parsed = Rejected | Accepted 'a

definition parse :: "'a parsed \<Rightarrow> 'a async" where
  "parse b = (case b of Rejected \<Rightarrow> throw ZodError | Accepted x \<Rightarrow> resolve x)"

text \<open>Responses: the HTTP status and the JSON body.\<close>

datatype json =
    Message string
  | InvalidData string
  | LicenseJson license
  | LicensesJson "license list"
  | SubscriptionJson subscription
  | SubscriptionsJson "subscription list"
  | InvoiceJson invoice
  | InvoicesJson "invoice list"
  | TransactionJson transaction
  | TransactionsJson "transaction list"
  | StatsJson int int int int
  | AlertsJson "license_alert list"

type_synonym response = "nat \<times> json"

text \<open>
  The \<open>try { ... } catch (error) { ... }\<close> that wraps every handler: a \<open>ZodError\<close>
  is answered with 400 and the first message, anything else with 500 and the second.
\<close>

definition try_catch :: "string \<Rightarrow> string \<Rightarrow> response async \<Rightarrow> db \<Rightarrow> response \<times> db" where
  "try_catch invalid failure body d =
     (case body d of
        (Inr r, d') \<Rightarrow> (r, d')
      | (Inl ZodError, d') \<Rightarrow> ((400, InvalidData invalid), d')
      | (Inl _, d') \<Rightarrow> ((500, Message failure), d'))"

subsection \<open>Auth middleware (routes.ts)\<close>

text \<open>The caller is \<open>None\<close> when \<open>req.isAuthenticated()\<close> is false.\<close>

definition isAuthenticated :: "user option \<Rightarrow> (user \<Rightarrow> db \<Rightarrow> response \<times> db) \<Rightarrow> db \<Rightarrow> response \<times> db" where
  "isAuthenticated caller next d =
     (case caller of
        Some u \<Rightarrow> next u d
      | None \<Rightarrow> ((401, Message ''Unauthorized''), d))"

definition isSales :: "user option \<Rightarrow> (user \<Rightarrow> db \<Rightarrow> response \<times> db) \<Rightarrow> db \<Rightarrow> response \<times> db" where
  "isSales caller next d =
     (case caller of
        Some u \<Rightarrow>
          if u_role u = Sales \<or> u_role u = Admin then next u d
          else ((403, Message ''Forbidden''), d)
      | None \<Rightarrow> ((403, Message ''Forbidden''), d))"

section \<open>Storage (DatabaseStorage)\<close>

text \<open>
  Each method is one SQL statement on one table. A \<open>select\<close> leaves the database as
  it is; \<open>const [row] = await ...\<close> takes the first row, if any. An \<open>insert\<close> checks
  the ranges of the column types, the foreign keys and the unique columns of the
  schema, fills the defaults and appends the row; an
  \<open>update ... set({...data, updatedAt: new Date()})\<close> overwrites the fields present in
  \<open>data\<close> in every row with the given id. An integer parameter out of range fails the
  statement when it is bound, a \<open>numeric(10,2)\<close> value or a constraint only when a
  row is written.
\<close>

definition now :: "env \<Rightarrow> instant" where
  "now e = getTime (clock e)"

definition orElse :: "'a option \<Rightarrow> 'a \<Rightarrow> 'a" where
  "orElse x dflt = (case x of None \<Rightarrow> dflt | Some v \<Rightarrow> v)"

text \<open>
  What the column types do to a value written: a \<open>date\<close> column keeps the calendar
  date of an instant and drops the time of day; an \<open>integer\<close> column holds 32 bits and
  a \<open>numeric(10,2)\<close> column fewer than \<open>10\<^sup>8\<close> units, that is \<open>10\<^sup>1\<^sup>0\<close> cents, in
  absolute value, and a value outside makes the statement throw.
\<close>

definition toDate :: "instant \<Rightarrow> instant" where
  "toDate t = (t div msPerDay) * msPerDay"

definition int4 :: "int \<Rightarrow> bool" where
  "int4 n = (- 2147483648 \<le> n \<and> n \<le> 2147483647)"

definition numeric_10_2 :: "int \<Rightarrow> bool" where
  "numeric_10_2 cents = (- 10000000000 < cents \<and> cents < 10000000000)"

text \<open>A value that is set and does not fit its column.\<close>

definition overflows :: "(int \<Rightarrow> bool) \<Rightarrow> int option \<Rightarrow> bool" where
  "overflows fits val = (case val of None \<Rightarrow> False | Some k \<Rightarrow> \<not> fits k)"

text \<open>A reference that is set and points at no row; a unique value that is set and
  already used by another row.\<close>

definition dangling :: "int option \<Rightarrow> int set \<Rightarrow> bool" where
  "dangling ref ids = (case ref of None \<Rightarrow> False | Some k \<Rightarrow> k \<notin> ids)"

definition taken :: "'a option \<Rightarrow> 'a set \<Rightarrow> bool" where
  "taken val used = (case val of None \<Rightarrow> False | Some k \<Rightarrow> k \<in> used)"

subsection \<open>Clients\<close>

definition getClient :: "env \<Rightarrow> int \<Rightarrow> client option async" where
  "getClient e i = stmt e Clients (\<lambda>d. (Inr (find (\<lambda>c. cl_id c = i) (clients d)), d))"

definition getClientByUserId :: "env \<Rightarrow> int \<Rightarrow> client option async" where
  "getClientByUserId e userId =
     stmt e Clients (\<lambda>d. (Inr (find (\<lambda>c. cl_userId c = userId) (clients d)), d))"

subsection \<open>Subscriptions\<close>

definition getSubscription :: "env \<Rightarrow> int \<Rightarrow> subscription option async" where
  "getSubscription e i =
     stmt e Subscriptions (\<lambda>d. (Inr (find (\<lambda>s. sub_id s = i) (subscriptions d)), d))"

definition getSubscriptionsByClient :: "env \<Rightarrow> int \<Rightarrow> subscription list async" where
  "getSubscriptionsByClient e clientId =
     stmt e Subscriptions
       (\<lambda>d. (Inr (filter (\<lambda>s. sub_clientId s = clientId) (subscriptions d)), d))"

definition createSubscription :: "env \<Rightarrow> insert_subscription \<Rightarrow> subscription async" where
  "createSubscription e v =
     stmt e Subscriptions (\<lambda>d.
       if overflows numeric_10_2 (Some (is_price v)) then (Inl OutOfRange, d)
       else if dangling (Some (is_clientId v)) (cl_id ` set (clients d))
         then (Inl ForeignKeyViolation, d)
       else if dangling (Some (is_productId v)) (prod_id ` set (products d))
         then (Inl ForeignKeyViolation, d)
       else
         let row = \<lparr> sub_id = subscriptions_id_seq d,
                     sub_clientId = is_clientId v,
                     sub_productId = is_productId v,
                     sub_subscriptionType = is_subscriptionType v,
                     sub_startDate = toDate (is_startDate v),
                     sub_endDate = toDate (is_endDate v),
                     sub_price = is_price v,
                     sub_autoRenew = orElse (is_autoRenew v) False,
                     sub_notes = is_notes v,
                     sub_createdAt = now e,
                     sub_updatedAt = now e \<rparr>
         in (Inr row, d\<lparr> subscriptions := subscriptions d @ [row],
                         subscriptions_id_seq := subscriptions_id_seq d + 1 \<rparr>))"

definition set_subscription :: "partial_subscription \<Rightarrow> instant \<Rightarrow> subscription \<Rightarrow> subscription" where
  "set_subscription v t s =
     s\<lparr> sub_clientId := orElse (ps_clientId v) (sub_clientId s),
        sub_productId := orElse (ps_productId v) (sub_productId s),
        sub_subscriptionType := orElse (ps_subscriptionType v) (sub_subscriptionType s),
        sub_startDate := orElse (map_option toDate (ps_startDate v)) (sub_startDate s),
        sub_endDate := orElse (map_option toDate (ps_endDate v)) (sub_endDate s),
        sub_price := orElse (ps_price v) (sub_price s),
        sub_autoRenew := orElse (ps_autoRenew v) (sub_autoRenew s),
        sub_notes := orElse (ps_notes v) (sub_notes s),
        sub_updatedAt := t \<rparr>"

definition updateSubscription :: "env \<Rightarrow> int \<Rightarrow> partial_subscription \<Rightarrow> subscription option async" where
  "updateSubscription e i v =
     stmt e Subscriptions (\<lambda>d.
       let hit = i \<in> sub_id ` set (subscriptions d) in
       if hit \<and> overflows numeric_10_2 (ps_price v) then (Inl OutOfRange, d)
       else if hit \<and> dangling (ps_clientId v) (cl_id ` set (clients d))
         then (Inl ForeignKeyViolation, d)
       else if hit \<and> dangling (ps_productId v) (prod_id ` set (products d))
         then (Inl ForeignKeyViolation, d)
       else
         let rows = map (\<lambda>s. if sub_id s = i then set_subscription v (now e) s else s)
                        (subscriptions d)
         in (Inr (find (\<lambda>s. sub_id s = i) rows), d\<lparr> subscriptions := rows \<rparr>))"

subsection \<open>Licenses\<close>

definition getLicense :: "env \<Rightarrow> int \<Rightarrow> license option async" where
  "getLicense e i = stmt e Licenses (\<lambda>d. (Inr (find (\<lambda>l. lic_id l = i) (licenses d)), d))"

definition getLicensesBySubscription :: "env \<Rightarrow> int \<Rightarrow> license list async" where
  "getLicensesBySubscription e subscriptionId =
     stmt e Licenses
       (\<lambda>d. (Inr (filter (\<lambda>l. lic_subscriptionId l = subscriptionId) (licenses d)), d))"

definition getExpiringLicenses :: "env \<Rightarrow> int \<Rightarrow> license list async" where
  "getExpiringLicenses e daysThreshold =
     (let thresholdDate = addDays (now e) daysThreshold in
      stmt e Licenses (\<lambda>d.
        (Inr (filter (\<lambda>l. lic_status l = Active
                            \<and> lic_expirationDate l < toDate thresholdDate)
                     (licenses d)), d)))"

definition createLicense :: "env \<Rightarrow> insert_license \<Rightarrow> license async" where
  "createLicense e v =
     stmt e Licenses (\<lambda>d.
       if overflows int4 (il_notificationsSent v) then (Inl OutOfRange, d)
       else if dangling (Some (il_subscriptionId v)) (sub_id ` set (subscriptions d))
         then (Inl ForeignKeyViolation, d)
       else if taken (Some (il_licenseKey v)) (lic_licenseKey ` set (licenses d))
         then (Inl UniqueViolation, d)
       else
         let row = \<lparr> lic_id = licenses_id_seq d,
                     lic_subscriptionId = il_subscriptionId v,
                     lic_licenseKey = il_licenseKey v,
                     lic_status = orElse (il_status v) Active,
                     lic_activationDate = toDate (il_activationDate v),
                     lic_expirationDate = toDate (il_expirationDate v),
                     lic_lastChecked = il_lastChecked v,
                     lic_notificationsSent = orElse (il_notificationsSent v) 0,
                     lic_createdAt = now e,
                     lic_updatedAt = now e \<rparr>
         in (Inr row, d\<lparr> licenses := licenses d @ [row],
                         licenses_id_seq := licenses_id_seq d + 1 \<rparr>))"

definition set_license :: "partial_license \<Rightarrow> instant \<Rightarrow> license \<Rightarrow> license" where
  "set_license v t l =
     l\<lparr> lic_subscriptionId := orElse (pl_subscriptionId v) (lic_subscriptionId l),
        lic_licenseKey := orElse (pl_licenseKey v) (lic_licenseKey l),
        lic_status := orElse (pl_status v) (lic_status l),
        lic_activationDate := orElse (map_option toDate (pl_activationDate v))
                                     (lic_activationDate l),
        lic_expirationDate := orElse (map_option toDate (pl_expirationDate v))
                                     (lic_expirationDate l),
        lic_lastChecked := orElse (pl_lastChecked v) (lic_lastChecked l),
        lic_notificationsSent := orElse (pl_notificationsSent v) (lic_notificationsSent l),
        lic_updatedAt := t \<rparr>"

definition updateLicense :: "env \<Rightarrow> int \<Rightarrow> partial_license \<Rightarrow> license option async" where
  "updateLicense e i v =
     stmt e Licenses (\<lambda>d.
       let hit = i \<in> lic_id ` set (licenses d) in
       if overflows int4 (pl_notificationsSent v) then (Inl OutOfRange, d)
       else if hit \<and> dangling (pl_subscriptionId v) (sub_id ` set (subscriptions d))
         then (Inl ForeignKeyViolation, d)
       else if hit \<and> taken (pl_licenseKey v)
                        (lic_licenseKey ` set (filter (\<lambda>l. lic_id l \<noteq> i) (licenses d)))
         then (Inl UniqueViolation, d)
       else
         let rows = map (\<lambda>l. if lic_id l = i then set_license v (now e) l else l) (licenses d)
         in (Inr (find (\<lambda>l. lic_id l = i) rows), d\<lparr> licenses := rows \<rparr>))"

text \<open>
  \<open>generateLicenseKey\<close>: the prefix, the first 16 characters of the UUID without its
  dashes, in upper case, and \<open>format(new Date(), "yyyyMMdd")\<close>.
\<close>

definition toUpperCase :: "string \<Rightarrow> string" where
  "toUpperCase s =
     map (\<lambda>c. case map_of (zip ''abcdefghijklmnopqrstuvwxyz'' ''ABCDEFGHIJKLMNOPQRSTUVWXYZ'') c of
                 Some C \<Rightarrow> C
               | None \<Rightarrow> c) s"

fun digits :: "nat \<Rightarrow> string" where
  "digits n =
     (if n < 10 then [''0123456789'' ! n]
      else digits (n div 10) @ [''0123456789'' ! (n mod 10)])"

definition addLeadingZeros :: "nat \<Rightarrow> nat \<Rightarrow> string" where
  "addLeadingZeros n targetLength =
     replicate (targetLength - length (digits n)) (CHR ''0'') @ digits n"

definition format_yyyyMMdd :: "jsdate \<Rightarrow> string" where
  "format_yyyyMMdd d =
     addLeadingZeros (nat (getFullYear d)) 4 @ addLeadingZeros (getMonth d + 1) 2
       @ addLeadingZeros (getDate d) 2"

definition generateLicenseKey :: "env \<Rightarrow> string" where
  "generateLicenseKey e =
     (let prefix = ''LIC'';
          uuid = toUpperCase (take 16 (filter (\<lambda>c. c \<noteq> CHR ''-'') (randomUUID e)));
          timestamp = format_yyyyMMdd (clock e)
      in prefix @ ''-'' @ uuid @ ''-'' @ timestamp)"

subsection \<open>Invoices\<close>

definition getInvoice :: "env \<Rightarrow> int \<Rightarrow> invoice option async" where
  "getInvoice e i = stmt e Invoices (\<lambda>d. (Inr (find (\<lambda>v. inv_id v = i) (invoices d)), d))"

definition getInvoicesByClient :: "env \<Rightarrow> int \<Rightarrow> invoice list async" where
  "getInvoicesByClient e clientId =
     stmt e Invoices (\<lambda>d. (Inr (filter (\<lambda>v. inv_clientId v = clientId) (invoices d)), d))"

definition set_invoice :: "partial_invoice \<Rightarrow> instant \<Rightarrow> invoice \<Rightarrow> invoice" where
  "set_invoice v t x =
     x\<lparr> inv_clientId := orElse (pi_clientId v) (inv_clientId x),
        inv_subscriptionId := orElse (pi_subscriptionId v) (inv_subscriptionId x),
        inv_invoiceNumber := orElse (pi_invoiceNumber v) (inv_invoiceNumber x),
        inv_amount := orElse (pi_amount v) (inv_amount x),
        inv_tax := orElse (pi_tax v) (inv_tax x),
        inv_totalAmount := orElse (pi_totalAmount v) (inv_totalAmount x),
        inv_issueDate := orElse (map_option toDate (pi_issueDate v)) (inv_issueDate x),
        inv_dueDate := orElse (map_option toDate (pi_dueDate v)) (inv_dueDate x),
        inv_isPaid := orElse (pi_isPaid v) (inv_isPaid x),
        inv_notes := orElse (pi_notes v) (inv_notes x),
        inv_updatedAt := t \<rparr>"

definition updateInvoice :: "env \<Rightarrow> int \<Rightarrow> partial_invoice \<Rightarrow> invoice option async" where
  "updateInvoice e i v =
     stmt e Invoices (\<lambda>d.
       let hit = i \<in> inv_id ` set (invoices d) in
       if hit \<and> (overflows numeric_10_2 (pi_amount v) \<or> overflows numeric_10_2 (pi_tax v)
                 \<or> overflows numeric_10_2 (pi_totalAmount v))
         then (Inl OutOfRange, d)
       else if hit \<and> dangling (pi_clientId v) (cl_id ` set (clients d))
         then (Inl ForeignKeyViolation, d)
       else if hit \<and> dangling (orElse (pi_subscriptionId v) None) (sub_id ` set (subscriptions d))
         then (Inl ForeignKeyViolation, d)
       else if hit \<and> taken (pi_invoiceNumber v)
                        (inv_invoiceNumber ` set (filter (\<lambda>x. inv_id x \<noteq> i) (invoices d)))
         then (Inl UniqueViolation, d)
       else
         let rows = map (\<lambda>x. if inv_id x = i then set_invoice v (now e) x else x) (invoices d)
         in (Inr (find (\<lambda>x. inv_id x = i) rows), d\<lparr> invoices := rows \<rparr>))"

text \<open>The literal \<open>{ isPaid: true }\<close>.\<close>

definition isPaid_true :: partial_invoice where
  "isPaid_true =
     \<lparr> pi_clientId = None, pi_subscriptionId = None, pi_invoiceNumber = None, pi_amount = None,
       pi_tax = None, pi_totalAmount = None, pi_issueDate = None, pi_dueDate = None,
       pi_isPaid = Some True, pi_notes = None \<rparr>"

subsection \<open>Transactions\<close>

definition getTransaction :: "env \<Rightarrow> int \<Rightarrow> transaction option async" where
  "getTransaction e i =
     stmt e Transactions (\<lambda>d. (Inr (find (\<lambda>t. tx_id t = i) (transactions d)), d))"

definition getTransactionsByClient :: "env \<Rightarrow> int \<Rightarrow> transaction list async" where
  "getTransactionsByClient e clientId =
     stmt e Transactions
       (\<lambda>d. (Inr (filter (\<lambda>t. tx_clientId t = clientId) (transactions d)), d))"

definition getRecentTransactions :: "env \<Rightarrow> nat \<Rightarrow> transaction list async" where
  "getRecentTransactions e limit =
     stmt e Transactions
       (\<lambda>d. (Inr (take limit (rev (sort_key tx_transactionDate (transactions d)))), d))"

text \<open>The row an insert of \<open>v\<close> stores under the id \<open>i\<close>: the values given and the
  defaults of the schema for those that are absent.\<close>

definition transaction_row :: "env \<Rightarrow> insert_transaction \<Rightarrow> int \<Rightarrow> transaction" where
  "transaction_row e v i =
     \<lparr> tx_id = i,
       tx_clientId = it_clientId v,
       tx_invoiceId = it_invoiceId v,
       tx_amount = it_amount v,
       tx_status = orElse (it_status v) TxPending,
       tx_paymentMethod = it_paymentMethod v,
       tx_transactionDate = orElse (it_transactionDate v) (now e),
       tx_notes = it_notes v,
       tx_createdAt = now e,
       tx_updatedAt = now e \<rparr>"

definition createTransaction :: "env \<Rightarrow> insert_transaction \<Rightarrow> transaction async" where
  "createTransaction e v =
     stmt e Transactions (\<lambda>d.
       if overflows numeric_10_2 (Some (it_amount v)) then (Inl OutOfRange, d)
       else if dangling (Some (it_clientId v)) (cl_id ` set (clients d))
         then (Inl ForeignKeyViolation, d)
       else if dangling (it_invoiceId v) (inv_id ` set (invoices d))
         then (Inl ForeignKeyViolation, d)
       else
         let row = transaction_row e v (transactions_id_seq d)
         in (Inr row, d\<lparr> transactions := transactions d @ [row],
                         transactions_id_seq := transactions_id_seq d + 1 \<rparr>))"

subsection \<open>Dashboard statistics\<close>

definition getClientCount :: "env \<Rightarrow> int async" where
  "getClientCount e = stmt e Clients (\<lambda>d. (Inr (int (length (clients d))), d))"

definition getActiveLicensesCount :: "env \<Rightarrow> int async" where
  "getActiveLicensesCount e =
     stmt e Licenses
       (\<lambda>d. (Inr (int (length (filter (\<lambda>l. lic_status l = Active) (licenses d)))), d))"

definition getOpenTicketsCount :: "env \<Rightarrow> int async" where
  "getOpenTicketsCount e =
     stmt e Tickets
       (\<lambda>d. (Inr (int (length (filter (\<lambda>t. tk_status t = New \<or> tk_status t = In_progress)
                                       (tickets d)))), d))"

text \<open>\<open>new Date(currentDate.getFullYear(), currentDate.getMonth(), 1)\<close>\<close>

definition firstDayOfMonth :: "jsdate \<Rightarrow> instant" where
  "firstDayOfMonth currentDate =
     getTime \<lparr> getFullYear = getFullYear currentDate, getMonth = getMonth currentDate,
               getDate = 1, msOfDay = 0 \<rparr>"

definition getMonthlyRevenue :: "env \<Rightarrow> int async" where
  "getMonthlyRevenue e =
     stmt e Transactions (\<lambda>d.
       (Inr (sum_list (map tx_amount
               (filter (\<lambda>t. firstDayOfMonth (clock e) \<le> tx_transactionDate t
                            \<and> tx_status t = Completed)
                       (transactions d)))), d))"

section \<open>Routes (registerRoutes)\<close>

text \<open>
  A route is its middleware applied to its handler. The path parameter \<open>:id\<close> is taken
  as the integer \<open>parseInt\<close> reads; a query parameter is \<open>None\<close> when it is absent
  or not a number, and \<open>truthy\<close> is the JavaScript test \<open>if (clientId)\<close> on what was
  read, which zero fails as well.
\<close>

definition catch_all :: "string \<Rightarrow> response async \<Rightarrow> db \<Rightarrow> response \<times> db" where
  "catch_all failure body d =
     (case body d of
        (Inr r, d') \<Rightarrow> (r, d')
      | (Inl _, d') \<Rightarrow> ((500, Message failure), d'))"

definition truthy :: "int option \<Rightarrow> bool" where
  "truthy q = (case q of None \<Rightarrow> False | Some n \<Rightarrow> n \<noteq> 0)"

subsection \<open>Dashboard\<close>

text \<open>\<open>let x = 0; try { x = await m } catch (err) { console.error(...) }\<close>\<close>

definition or_default :: "'a \<Rightarrow> 'a async \<Rightarrow> 'a async" where
  "or_default dflt m d =
     (case m d of (Inl _, d') \<Rightarrow> (Inr dflt, d') | (Inr x, d') \<Rightarrow> (Inr x, d'))"

definition dashboard_stats :: "env \<Rightarrow> user option \<Rightarrow> db \<Rightarrow> response \<times> db" where
  "dashboard_stats e caller =
     isAuthenticated caller (\<lambda>u.
       catch_all ''Error fetching dashboard stats''
         (await (or_default 0 (getClientCount e)) (\<lambda>clientCount.
          await (or_default 0 (getActiveLicensesCount e)) (\<lambda>activeLicensesCount.
          await (or_default 0 (getOpenTicketsCount e)) (\<lambda>openTicketsCount.
          await (or_default 0 (getMonthlyRevenue e)) (\<lambda>monthlyRevenue.
          resolve (200, StatsJson clientCount activeLicensesCount openTicketsCount
                                  monthlyRevenue)))))))"

subsection \<open>Subscriptions\<close>

definition get_subscriptions :: "env \<Rightarrow> user option \<Rightarrow> int option \<Rightarrow> db \<Rightarrow> response \<times> db" where
  "get_subscriptions e caller clientId =
     isAuthenticated caller (\<lambda>u.
       catch_all ''Error fetching subscriptions''
         (if truthy clientId then
            await (getSubscriptionsByClient e (the clientId)) (\<lambda>subscriptions.
            resolve (200, SubscriptionsJson subscriptions))
          else if u_role u = Client then
            await (getClientByUserId e (u_id u)) (\<lambda>client.
            case client of
              None \<Rightarrow> resolve (403, Message ''Client profile not found'')
            | Some c \<Rightarrow>
                await (getSubscriptionsByClient e (cl_id c)) (\<lambda>subscriptions.
                resolve (200, SubscriptionsJson subscriptions)))
          else resolve (200, SubscriptionsJson [])))"

definition get_subscription :: "env \<Rightarrow> user option \<Rightarrow> int \<Rightarrow> db \<Rightarrow> response \<times> db" where
  "get_subscription e caller i =
     isAuthenticated caller (\<lambda>u.
       catch_all ''Error fetching subscription''
         (await (getSubscription e i) (\<lambda>subscription.
          case subscription of
            None \<Rightarrow> resolve (404, Message ''Subscription not found'')
          | Some s \<Rightarrow>
              if u_role u = Client then
                await (getClientByUserId e (u_id u)) (\<lambda>client.
                case client of
                  None \<Rightarrow> resolve (403, Message ''Access denied'')
                | Some c \<Rightarrow>
                    if cl_id c \<noteq> sub_clientId s then resolve (403, Message ''Access denied'')
                    else resolve (200, SubscriptionJson s))
              else resolve (200, SubscriptionJson s))))"

definition post_subscription_handler ::
  "env \<Rightarrow> insert_subscription parsed \<Rightarrow> db \<Rightarrow> response \<times> db" where
  "post_subscription_handler e body =
     try_catch ''Invalid subscription data'' ''Error creating subscription''
       (await (parse body) (\<lambda>subscriptionData.
        await (createSubscription e subscriptionData) (\<lambda>subscription.
        resolve (201, SubscriptionJson subscription))))"

definition post_subscription ::
  "env \<Rightarrow> user option \<Rightarrow> insert_subscription parsed \<Rightarrow> db \<Rightarrow> response \<times> db" where
  "post_subscription e caller body = isSales caller (\<lambda>u. post_subscription_handler e body)"

definition patch_subscription_handler ::
  "env \<Rightarrow> int \<Rightarrow> partial_subscription parsed \<Rightarrow> db \<Rightarrow> response \<times> db" where
  "patch_subscription_handler e i body =
     try_catch ''Invalid subscription data'' ''Error updating subscription''
       (await (parse body) (\<lambda>subscriptionData.
        await (updateSubscription e i subscriptionData) (\<lambda>subscription.
        case subscription of
          None \<Rightarrow> resolve (404, Message ''Subscription not found'')
        | Some s \<Rightarrow> resolve (200, SubscriptionJson s))))"

definition patch_subscription ::
  "env \<Rightarrow> user option \<Rightarrow> int \<Rightarrow> partial_subscription parsed \<Rightarrow> db \<Rightarrow> response \<times> db" where
  "patch_subscription e caller i body = isSales caller (\<lambda>u. patch_subscription_handler e i body)"

subsection \<open>Licenses\<close>

definition get_licenses :: "env \<Rightarrow> user option \<Rightarrow> int option \<Rightarrow> db \<Rightarrow> response \<times> db" where
  "get_licenses e caller subscriptionId =
     isAuthenticated caller (\<lambda>u.
       catch_all ''Error fetching licenses''
         (if \<not> truthy subscriptionId then resolve (400, Message ''Subscription ID required'')
          else
            await (getLicensesBySubscription e (the subscriptionId)) (\<lambda>licenses.
            if u_role u = Client then
              await (getSubscription e (the subscriptionId)) (\<lambda>subscription.
              case subscription of
                None \<Rightarrow> resolve (404, Message ''Subscription not found'')
              | Some s \<Rightarrow>
                  await (getClientByUserId e (u_id u)) (\<lambda>client.
                  case client of
                    None \<Rightarrow> resolve (403, Message ''Access denied'')
                  | Some c \<Rightarrow>
                      if cl_id c \<noteq> sub_clientId s then resolve (403, Message ''Access denied'')
                      else resolve (200, LicensesJson licenses)))
            else resolve (200, LicensesJson licenses))))"

definition get_license :: "env \<Rightarrow> user option \<Rightarrow> int \<Rightarrow> db \<Rightarrow> response \<times> db" where
  "get_license e caller i =
     isAuthenticated caller (\<lambda>u.
       catch_all ''Error fetching license''
         (await (getLicense e i) (\<lambda>license.
          case license of
            None \<Rightarrow> resolve (404, Message ''License not found'')
          | Some l \<Rightarrow>
              if u_role u = Client then
                await (getSubscription e (lic_subscriptionId l)) (\<lambda>subscription.
                case subscription of
                  None \<Rightarrow> resolve (404, Message ''Subscription not found'')
                | Some s \<Rightarrow>
                    await (getClientByUserId e (u_id u)) (\<lambda>client.
                    case client of
                      None \<Rightarrow> resolve (403, Message ''Access denied'')
                    | Some c \<Rightarrow>
                        if cl_id c \<noteq> sub_clientId s then resolve (403, Message ''Access denied'')
                        else resolve (200, LicenseJson l)))
              else resolve (200, LicenseJson l))))"

definition post_license_handler ::
  "env \<Rightarrow> insert_license parsed \<Rightarrow> db \<Rightarrow> response \<times> db" where
  "post_license_handler e body =
     try_catch ''Invalid license data'' ''Error creating license''
       (await (parse body) (\<lambda>parsedData.
        let licenseData =
              (if il_licenseKey parsedData = []
               then parsedData\<lparr> il_licenseKey := generateLicenseKey e \<rparr>
               else parsedData)
        in await (createLicense e licenseData) (\<lambda>license.
           resolve (201, LicenseJson license))))"

definition post_license ::
  "env \<Rightarrow> user option \<Rightarrow> insert_license parsed \<Rightarrow> db \<Rightarrow> response \<times> db" where
  "post_license e caller body = isSales caller (\<lambda>u. post_license_handler e body)"

definition patch_license_handler ::
  "env \<Rightarrow> int \<Rightarrow> partial_license parsed \<Rightarrow> db \<Rightarrow> response \<times> db" where
  "patch_license_handler e i body =
     try_catch ''Invalid license data'' ''Error updating license''
       (await (parse body) (\<lambda>licenseData.
        await (updateLicense e i licenseData) (\<lambda>license.
        case license of
          None \<Rightarrow> resolve (404, Message ''License not found'')
        | Some l \<Rightarrow> resolve (200, LicenseJson l))))"

definition patch_license ::
  "env \<Rightarrow> user option \<Rightarrow> int \<Rightarrow> partial_license parsed \<Rightarrow> db \<Rightarrow> response \<times> db" where
  "patch_license e caller i body = isSales caller (\<lambda>u. patch_license_handler e i body)"

subsection \<open>Invoices\<close>

definition get_invoices :: "env \<Rightarrow> user option \<Rightarrow> int option \<Rightarrow> db \<Rightarrow> response \<times> db" where
  "get_invoices e caller clientId =
     isAuthenticated caller (\<lambda>u.
       catch_all ''Error fetching invoices''
         (if truthy clientId then
            await (getInvoicesByClient e (the clientId)) (\<lambda>invoices.
            resolve (200, InvoicesJson invoices))
          else if u_role u = Client then
            await (getClientByUserId e (u_id u)) (\<lambda>client.
            case client of
              None \<Rightarrow> resolve (403, Message ''Client profile not found'')
            | Some c \<Rightarrow>
                await (getInvoicesByClient e (cl_id c)) (\<lambda>invoices.
                resolve (200, InvoicesJson invoices)))
          else resolve (200, InvoicesJson [])))"

definition get_invoice :: "env \<Rightarrow> user option \<Rightarrow> int \<Rightarrow> db \<Rightarrow> response \<times> db" where
  "get_invoice e caller i =
     isAuthenticated caller (\<lambda>u.
       catch_all ''Error fetching invoice''
         (await (getInvoice e i) (\<lambda>invoice.
          case invoice of
            None \<Rightarrow> resolve (404, Message ''Invoice not found'')
          | Some v \<Rightarrow>
              if u_role u = Client then
                await (getClientByUserId e (u_id u)) (\<lambda>client.
                case client of
                  None \<Rightarrow> resolve (403, Message ''Access denied'')
                | Some c \<Rightarrow>
                    if cl_id c \<noteq> inv_clientId v then resolve (403, Message ''Access denied'')
                    else resolve (200, InvoiceJson v))
              else resolve (200, InvoiceJson v))))"

subsection \<open>Transactions\<close>

definition get_transactions :: "env \<Rightarrow> user option \<Rightarrow> int option \<Rightarrow> db \<Rightarrow> response \<times> db" where
  "get_transactions e caller clientId =
     isAuthenticated caller (\<lambda>u.
       catch_all ''Error fetching transactions''
         (if truthy clientId then
            await (getTransactionsByClient e (the clientId)) (\<lambda>transactions.
            resolve (200, TransactionsJson transactions))
          else if u_role u = Client then
            await (getClientByUserId e (u_id u)) (\<lambda>client.
            case client of
              None \<Rightarrow> resolve (403, Message ''Client profile not found'')
            | Some c \<Rightarrow>
                await (getTransactionsByClient e (cl_id c)) (\<lambda>transactions.
                resolve (200, TransactionsJson transactions)))
          else
            await (getRecentTransactions e 20) (\<lambda>transactions.
            resolve (200, TransactionsJson transactions))))"

definition get_transaction :: "env \<Rightarrow> user option \<Rightarrow> int \<Rightarrow> db \<Rightarrow> response \<times> db" where
  "get_transaction e caller i =
     isAuthenticated caller (\<lambda>u.
       catch_all ''Error fetching transaction''
         (await (getTransaction e i) (\<lambda>transaction.
          case transaction of
            None \<Rightarrow> resolve (404, Message ''Transaction not found'')
          | Some t \<Rightarrow>
              if u_role u = Client then
                await (getClientByUserId e (u_id u)) (\<lambda>client.
                case client of
                  None \<Rightarrow> resolve (403, Message ''Access denied'')
                | Some c \<Rightarrow>
                    if cl_id c \<noteq> tx_clientId t then resolve (403, Message ''Access denied'')
                    else resolve (200, TransactionJson t))
              else resolve (200, TransactionJson t))))"

definition post_transaction_handler ::
  "env \<Rightarrow> insert_transaction parsed \<Rightarrow> db \<Rightarrow> response \<times> db" where
  "post_transaction_handler e body =
     try_catch ''Invalid transaction data'' ''Error creating transaction''
       (await (parse body) (\<lambda>transactionData.
        await (createTransaction e transactionData) (\<lambda>transaction.
        if truthy (tx_invoiceId transaction) then
          await (updateInvoice e (the (tx_invoiceId transaction)) isPaid_true) (\<lambda>_.
          resolve (201, TransactionJson transaction))
        else resolve (201, TransactionJson transaction))))"

definition post_transaction ::
  "env \<Rightarrow> user option \<Rightarrow> insert_transaction parsed \<Rightarrow> db \<Rightarrow> response \<times> db" where
  "post_transaction e caller body = isSales caller (\<lambda>u. post_transaction_handler e body)"

subsection \<open>License expiration alerts\<close>

text \<open>\<open>Promise.all(xs.map(f))\<close>: the results in order, or the first exception.\<close>

fun traverse :: "('a \<Rightarrow> 'b async) \<Rightarrow> 'a list \<Rightarrow> 'b list async" where
  "traverse f [] = resolve []"
| "traverse f (x # xs) = await (f x) (\<lambda>y. await (traverse f xs) (\<lambda>ys. resolve (y # ys)))"

definition daysUntilExpiration :: "env \<Rightarrow> license \<Rightarrow> int" where
  "daysUntilExpiration e license = differenceInDays (lic_expirationDate license) (now e)"

definition license_alert_of :: "env \<Rightarrow> license \<Rightarrow> license_alert async" where
  "license_alert_of e license =
     await (getSubscription e (lic_subscriptionId license)) (\<lambda>subscription.
     await (case subscription of
              Some s \<Rightarrow> getClient e (sub_clientId s)
            | None \<Rightarrow> resolve None) (\<lambda>client.
     resolve
       \<lparr> la_id = lic_id license,
         la_licenseKey = lic_licenseKey license,
         la_expirationDate = lic_expirationDate license,
         la_expiresIn = daysUntilExpiration e license,
         la_company = (case client of
                         None \<Rightarrow> ''Unknown''
                       | Some c \<Rightarrow> if cl_companyName c = [] then ''Unknown'' else cl_companyName c),
         la_clientId = (case client of None \<Rightarrow> 0 | Some c \<Rightarrow> cl_id c),
         la_subscriptionId = (case subscription of None \<Rightarrow> 0 | Some s \<Rightarrow> sub_id s) \<rparr>))"

definition dashboard_expiring_licenses :: "env \<Rightarrow> user option \<Rightarrow> db \<Rightarrow> response \<times> db" where
  "dashboard_expiring_licenses e caller =
     isAuthenticated caller (\<lambda>u.
       catch_all ''Error fetching expiring licenses''
         (await (getExpiringLicenses e 14) (\<lambda>expiringLicenses.
          await (traverse (license_alert_of e) expiringLicenses) (\<lambda>licenseData.
          resolve (200, AlertsJson licenseData)))))"

subsection \<open>The HTTP surface\<close>

text \<open>
  The requests on the entitlement entities, and a run of the server over a sequence of
  them, each with the environment it meets and its caller.
\<close>

datatype request =
    GetDashboardStats
  | GetDashboardExpiringLicenses
  | GetSubscriptions "int option"
  | GetSubscription int
  | PostSubscription "insert_subscription parsed"
  | PatchSubscription int "partial_subscription parsed"
  | GetLicenses "int option"
  | GetLicense int
  | PostLicense "insert_license parsed"
  | PatchLicense int "partial_license parsed"
  | GetInvoices "int option"
  | GetInvoice int
  | GetTransactions "int option"
  | GetTransaction int
  | PostTransaction "insert_transaction parsed"

fun handle :: "env \<Rightarrow> user option \<Rightarrow> request \<Rightarrow> db \<Rightarrow> response \<times> db" where
  "handle e caller GetDashboardStats = dashboard_stats e caller"
| "handle e caller GetDashboardExpiringLicenses = dashboard_expiring_licenses e caller"
| "handle e caller (GetSubscriptions clientId) = get_subscriptions e caller clientId"
| "handle e caller (GetSubscription i) = get_subscription e caller i"
| "handle e caller (PostSubscription body) = post_subscription e caller body"
| "handle e caller (PatchSubscription i body) = patch_subscription e caller i body"
| "handle e caller (GetLicenses subscriptionId) = get_licenses e caller subscriptionId"
| "handle e caller (GetLicense i) = get_license e caller i"
| "handle e caller (PostLicense body) = post_license e caller body"
| "handle e caller (PatchLicense i body) = patch_license e caller i body"
| "handle e caller (GetInvoices clientId) = get_invoices e caller clientId"
| "handle e caller (GetInvoice i) = get_invoice e caller i"
| "handle e caller (GetTransactions clientId) = get_transactions e caller clientId"
| "handle e caller (GetTransaction i) = get_transaction e caller i"
| "handle e caller (PostTransaction body) = post_transaction e caller body"

fun run :: "(env \<times> user option \<times> request) list \<Rightarrow> db \<Rightarrow> db" where
  "run [] d = d"
| "run ((e, caller, r) # rest) d = run rest (snd (handle e caller r d))"

text \<open>
  The one request that names a new license status: a PATCH of a license by a sales or
  admin caller whose accepted payload carries the \<open>status\<close> field.
\<close>

definition sales_or_admin :: "user option \<Rightarrow> bool" where
  "sales_or_admin caller =
     (case caller of None \<Rightarrow> False | Some u \<Rightarrow> u_role u = Sales \<or> u_role u = Admin)"

definition sets_license_status :: "user option \<Rightarrow> request \<Rightarrow> bool" where
  "sets_license_status caller r =
     (case r of
        PatchLicense i (Accepted v) \<Rightarrow> sales_or_admin caller \<and> pl_status v \<noteq> None
      | _ \<Rightarrow> False)"

section \<open>A small database for concrete runs\<close>

text \<open>
  On 2024-01-15 at 10:00 UTC: two clients, one monthly subscription of the first, a
  revoked license and an active one whose expiration date (2024-01-05) has passed, and
  one unpaid invoice of the first client. The second client belongs to user 20.
\<close>

definition env_ex :: env where
  "env_ex =
     \<lparr> clock = \<lparr> getFullYear = 2024, getMonth = 0, getDate = 15, msOfDay = 36000000 \<rparr>,
       randomUUID = ''123e4567-e89b-42d3-a456-426614174000'',
       outage = {} \<rparr>"

definition license_ex1 :: license where
  "license_ex1 =
     \<lparr> lic_id = 1, lic_subscriptionId = 1, lic_licenseKey = ''LIC-A'', lic_status = Revoked,
       lic_activationDate = 1704067200000, lic_expirationDate = 1706659200000,
       lic_lastChecked = None, lic_notificationsSent = 2,
       lic_createdAt = 1704067200000, lic_updatedAt = 1704067200000 \<rparr>"

definition license_ex2 :: license where
  "license_ex2 =
     \<lparr> lic_id = 2, lic_subscriptionId = 1, lic_licenseKey = ''LIC-B'', lic_status = Active,
       lic_activationDate = 1701388800000, lic_expirationDate = 1704412800000,
       lic_lastChecked = None, lic_notificationsSent = 0,
       lic_createdAt = 1701388800000, lic_updatedAt = 1701388800000 \<rparr>"

definition subscription_ex :: subscription where
  "subscription_ex =
     \<lparr> sub_id = 1, sub_clientId = 1, sub_productId = 1, sub_subscriptionType = Monthly,
       sub_startDate = 1704067200000, sub_endDate = 1706659200000, sub_price = 9900,
       sub_autoRenew = False, sub_notes = None,
       sub_createdAt = 1704067200000, sub_updatedAt = 1704067200000 \<rparr>"

definition invoice_ex :: invoice where
  "invoice_ex =
     \<lparr> inv_id = 1, inv_clientId = 1, inv_subscriptionId = Some 1,
       inv_invoiceNumber = ''INV-2024-00001'', inv_amount = 10000, inv_tax = 825,
       inv_totalAmount = 10825, inv_issueDate = 1704067200000, inv_dueDate = 1706659200000,
       inv_isPaid = False, inv_notes = None,
       inv_createdAt = 1704067200000, inv_updatedAt = 1704067200000 \<rparr>"

definition db_ex :: db where
  "db_ex =
     \<lparr> clients =
         [\<lparr> cl_id = 1, cl_userId = 10, cl_companyName = ''Acme'', cl_contactEmail = None,
            cl_createdAt = 1704067200000, cl_updatedAt = 1704067200000 \<rparr>,
          \<lparr> cl_id = 2, cl_userId = 20, cl_companyName = ''Globex'', cl_contactEmail = None,
            cl_createdAt = 1704067200000, cl_updatedAt = 1704067200000 \<rparr>],
       products = [\<lparr> prod_id = 1, prod_name = ''Suite'', prod_price = 9900 \<rparr>],
       subscriptions = [subscription_ex],
       licenses = [license_ex1, license_ex2],
       invoices = [invoice_ex],
       transactions = [],
       tickets = [],
       subscriptions_id_seq = 2,
       licenses_id_seq = 3,
       transactions_id_seq = 1 \<rparr>"

text \<open>The empty payload \<open>{}\<close> of a PATCH of a license; payloads are built from it.\<close>

definition no_fields :: partial_license where
  "no_fields =
     \<lparr> pl_subscriptionId = None, pl_licenseKey = None, pl_status = None,
       pl_activationDate = None, pl_expirationDate = None, pl_lastChecked = None,
       pl_notificationsSent = None \<rparr>"

text \<open>A payment of the invoice, reported as failed.\<close>

definition failed_payment_ex :: insert_transaction where
  "failed_payment_ex =
     \<lparr> it_clientId = 1, it_invoiceId = Some 1, it_amount = 10825, it_status = Some Failed,
       it_paymentMethod = None, it_transactionDate = None, it_notes = None \<rparr>"

text \<open>A new license under the subscription, with no status and no key given.\<close>

definition new_license_ex :: insert_license where
  "new_license_ex =
     \<lparr> il_subscriptionId = 1, il_licenseKey = [], il_status = None,
       il_activationDate = 1705276800000, il_expirationDate = 1707955200000,
       il_lastChecked = None, il_notificationsSent = None \<rparr>"

definition sales_ex :: user where
  "sales_ex = \<lparr> u_id = 1, u_role = Sales \<rparr>"

definition support_ex :: user where
  "support_ex = \<lparr> u_id = 2, u_role = Support \<rparr>"

definition client_ex :: user where
  "client_ex = \<lparr> u_id = 20, u_role = Client \<rparr>"

text \<open>
  Three requests in a row: a support user tries to reactivate license 1, a sales user
  moves its expiration date, a sales user creates a license.
\<close>

definition requests_ex :: "(env \<times> user option \<times> request) list" where
  "requests_ex =
     [(env_ex, Some support_ex, PatchLicense 1 (Accepted (no_fields\<lparr> pl_status := Some Active \<rparr>))),
      (env_ex, Some sales_ex,
         PatchLicense 1 (Accepted (no_fields\<lparr> pl_expirationDate := Some 1709164800000 \<rparr>))),
      (env_ex, Some sales_ex, PostLicense (Accepted new_license_ex))]"

text \<open>The transaction that recording \<open>failed_payment_ex\<close> yields.\<close>

definition payment_row_ex :: transaction where
  "payment_row_ex =
     \<lparr> tx_id = 1, tx_clientId = 1, tx_invoiceId = Some 1, tx_amount = 10825,
       tx_status = Failed, tx_paymentMethod = None, tx_transactionDate = 1705312800000,
       tx_notes = None, tx_createdAt = 1705312800000, tx_updatedAt = 1705312800000 \<rparr>"

text \<open>The license that creating \<open>new_license_ex\<close> yields.\<close>

definition created_ex :: license where
  "created_ex = \<lparr> lic_id = 3, lic_subscriptionId = 1, lic_licenseKey = ''LIC-123E4567E89B42D3-20240115'',
       lic_status = Active, lic_activationDate = 1705276800000, lic_expirationDate = 1707955200000,
       lic_lastChecked = None, lic_notificationsSent = 0,
       lic_createdAt = 1705312800000, lic_updatedAt = 1705312800000 \<rparr>"

text \<open>
  What \<open>randomUUID()\<close> yields: 36 characters, 32 lower-case hexadecimal digits and
  four dashes.
\<close>

definition is_uuid :: "string \<Rightarrow> bool" where
  "is_uuid s =
     (length s = 36 \<and> set s \<subseteq> set ''0123456789abcdef-''
      \<and> length (filter (\<lambda>c. c = CHR ''-'') s) = 4)"

section \<open>What a handler leaves unchanged\<close>

text \<open>
  Frame rules for the combinators: a projection \<open>f\<close> of the database that every part
  of a computation preserves is preserved by the whole.
\<close>

lemmas async_defs = resolve_def throw_def await_def stmt_def parse_def try_catch_def
  catch_all_def or_default_def isAuthenticated_def isSales_def

lemma await_keeps:
  assumes "\<And>d. f (snd (m d)) = f d" and "\<And>x d. f (snd (k x d)) = f d"
  shows "f (snd (await m k d)) = f d"
proof (cases "m d")
  case (Pair r d')
  then have "f d' = f d" using assms(1)[of d] by simp
  with Pair assms(2) show ?thesis by (cases r) (simp_all add: await_def)
qed

lemma try_catch_keeps:
  assumes "f (snd (m d)) = f d"
  shows "f (snd (try_catch a b m d)) = f d"
proof (cases "m d")
  case (Pair r d')
  with assms have "f d' = f d" by simp
  with Pair show ?thesis by (cases r) (simp_all add: try_catch_def split: exn.splits)
qed

lemma catch_all_keeps:
  assumes "f (snd (m d)) = f d"
  shows "f (snd (catch_all b m d)) = f d"
proof (cases "m d")
  case (Pair r d')
  with assms have "f d' = f d" by simp
  with Pair show ?thesis by (cases r) (simp_all add: catch_all_def)
qed

lemma or_default_keeps:
  assumes "f (snd (m d)) = f d"
  shows "f (snd (or_default x m d)) = f d"
proof (cases "m d")
  case (Pair r d')
  with assms have "f d' = f d" by simp
  with Pair show ?thesis by (cases r) (simp_all add: or_default_def)
qed

lemma resolve_keeps: "f (snd (resolve x d)) = f d"
  by (simp add: resolve_def)

lemma parse_keeps: "f (snd (parse b d)) = f d"
  by (cases b) (simp_all add: parse_def resolve_def throw_def)

lemma isAuthenticated_keeps:
  assumes "\<And>u. f (snd (h u d)) = f d"
  shows "f (snd (isAuthenticated caller h d)) = f d"
  using assms by (cases caller) (simp_all add: isAuthenticated_def)

lemma isSales_keeps:
  assumes "\<And>u. f (snd (h u d)) = f d"
  shows "f (snd (isSales caller h d)) = f d"
  using assms by (cases caller) (simp_all add: isSales_def)

lemma traverse_keeps:
  assumes "\<And>x d. f (snd (g x d)) = f d"
  shows "f (snd (traverse g xs d)) = f d"
proof (induction xs arbitrary: d)
  case Nil
  show ?case by (simp add: resolve_def)
next
  case (Cons x xs)
  have "f (snd (await (g x) (\<lambda>y. await (traverse g xs) (\<lambda>ys. resolve (y # ys))) d)) = f d"
    by (rule await_keeps, rule assms, rule await_keeps, rule Cons.IH, rule resolve_keeps)
  then show ?case by simp
qed

lemmas select_defs = getClient_def getClientByUserId_def getSubscription_def
  getSubscriptionsByClient_def getLicense_def getLicensesBySubscription_def
  getExpiringLicenses_def getInvoice_def getInvoicesByClient_def getTransaction_def
  getTransactionsByClient_def getRecentTransactions_def getClientCount_def
  getActiveLicensesCount_def getOpenTicketsCount_def getMonthlyRevenue_def

lemma selects_snd:
  "snd (getClient e i d) = d" "snd (getClientByUserId e i d) = d"
  "snd (getSubscription e i d) = d" "snd (getSubscriptionsByClient e i d) = d"
  "snd (getLicense e i d) = d" "snd (getLicensesBySubscription e i d) = d"
  "snd (getExpiringLicenses e i d) = d"
  "snd (getInvoice e i d) = d" "snd (getInvoicesByClient e i d) = d"
  "snd (getTransaction e i d) = d" "snd (getTransactionsByClient e i d) = d"
  "snd (getRecentTransactions e n d) = d" "snd (getClientCount e d) = d"
  "snd (getActiveLicensesCount e d) = d" "snd (getOpenTicketsCount e d) = d"
  "snd (getMonthlyRevenue e d) = d"
  by (simp_all add: select_defs stmt_def)

lemmas keeps_id = await_keeps[where f="\<lambda>d. d"] catch_all_keeps[where f="\<lambda>d. d"]
  or_default_keeps[where f="\<lambda>d. d"] resolve_keeps[where f="\<lambda>d. d"]
  isAuthenticated_keeps[where f="\<lambda>d. d"] traverse_keeps[where f="\<lambda>d. d"]

lemma license_alert_of_snd: "snd (license_alert_of e l d) = d"
  unfolding license_alert_of_def
  by (simp add: keeps_id selects_snd split: option.splits)

lemma dashboard_expiring_licenses_snd: "snd (dashboard_expiring_licenses e caller d) = d"
  unfolding dashboard_expiring_licenses_def
  by (simp add: keeps_id selects_snd license_alert_of_snd)

lemmas keeps_licenses = await_keeps[where f=licenses] catch_all_keeps[where f=licenses]
  try_catch_keeps[where f=licenses] parse_keeps[where f=licenses]
  or_default_keeps[where f=licenses] resolve_keeps[where f=licenses]
  isAuthenticated_keeps[where f=licenses] isSales_keeps[where f=licenses]
  traverse_keeps[where f=licenses]

lemma writes_keep_licenses:
  "licenses (snd (createSubscription e sv d)) = licenses d"
  "licenses (snd (updateSubscription e i psv d)) = licenses d"
  "licenses (snd (createTransaction e tv d)) = licenses d"
  "licenses (snd (updateInvoice e i piv d)) = licenses d"
  by (simp_all add: createSubscription_def updateSubscription_def createTransaction_def
        updateInvoice_def stmt_def Let_def)

lemma routes_keep_licenses:
  "licenses (snd (dashboard_stats e caller d)) = licenses d"
  "licenses (snd (dashboard_expiring_licenses e caller d)) = licenses d"
  "licenses (snd (get_subscriptions e caller q d)) = licenses d"
  "licenses (snd (get_subscription e caller i d)) = licenses d"
  "licenses (snd (post_subscription e caller sb d)) = licenses d"
  "licenses (snd (patch_subscription e caller i psb d)) = licenses d"
  "licenses (snd (get_licenses e caller q d)) = licenses d"
  "licenses (snd (get_license e caller i d)) = licenses d"
  "licenses (snd (get_invoices e caller q d)) = licenses d"
  "licenses (snd (get_invoice e caller i d)) = licenses d"
  "licenses (snd (get_transactions e caller q d)) = licenses d"
  "licenses (snd (get_transaction e caller i d)) = licenses d"
  "licenses (snd (post_transaction e caller tb d)) = licenses d"
  unfolding dashboard_stats_def dashboard_expiring_licenses_def get_subscriptions_def
    get_subscription_def post_subscription_def patch_subscription_def get_licenses_def
    get_license_def get_invoices_def get_invoice_def get_transactions_def get_transaction_def
    post_transaction_def post_subscription_handler_def patch_subscription_handler_def
    post_transaction_handler_def
  by (simp_all add: keeps_licenses selects_snd writes_keep_licenses license_alert_of_snd
        split: option.splits)


lemma lic_id_set_license [simp]: "lic_id (set_license v t l) = lic_id l"
  by (simp add: set_license_def)

lemma lic_status_set_license [simp]:
  "lic_status (set_license v t l) = orElse (pl_status v) (lic_status l)"
  by (simp add: set_license_def)

lemma createLicense_licenses:
  "take (length (licenses d)) (licenses (snd (createLicense e v d))) = licenses d"
  by (simp add: createLicense_def stmt_def Let_def)

lemma post_license_handler_licenses:
  "take (length (licenses d)) (licenses (snd (post_license_handler e b d))) = licenses d"
proof (cases b)
  case Rejected
  then show ?thesis
    by (simp add: post_license_handler_def try_catch_def await_def parse_def throw_def)
next
  case (Accepted v)
  define w where "w = (if il_licenseKey v = [] then v\<lparr> il_licenseKey := generateLicenseKey e \<rparr> else v)"
  have "snd (post_license_handler e b d) = snd (createLicense e w d)"
    unfolding post_license_handler_def try_catch_def await_def parse_def resolve_def
    by (cases "createLicense e w d") (simp add: Accepted w_def Let_def split: sum.splits exn.splits)
  then show ?thesis by (simp add: createLicense_licenses)
qed

lemma post_license_licenses:
  "take (length (licenses d)) (licenses (snd (post_license e caller b d))) = licenses d"
  by (cases caller) (simp_all add: post_license_def isSales_def post_license_handler_licenses)

lemma updateLicense_ids:
  "map lic_id (licenses (snd (updateLicense e i v d))) = map lic_id (licenses d)"
  by (simp add: updateLicense_def stmt_def Let_def comp_def)

lemma updateLicense_statuses:
  "pl_status v = None \<Longrightarrow>
   map lic_status (licenses (snd (updateLicense e i v d))) = map lic_status (licenses d)"
  by (simp add: updateLicense_def stmt_def Let_def comp_def orElse_def)

lemma patch_license_handler_snd:
  "snd (patch_license_handler e i b d) = (case b of Rejected \<Rightarrow> d | Accepted v \<Rightarrow> snd (updateLicense e i v d))"
proof (cases b)
  case Rejected
  then show ?thesis
    by (simp add: patch_license_handler_def try_catch_def await_def parse_def throw_def)
next
  case (Accepted v)
  show ?thesis
    unfolding patch_license_handler_def try_catch_def await_def parse_def resolve_def
    by (cases "updateLicense e i v d") (simp add: Accepted split: sum.splits exn.splits option.splits)
qed

lemma patch_license_ids:
  "map lic_id (licenses (snd (patch_license e caller i b d))) = map lic_id (licenses d)"
  by (cases caller; cases b)
     (simp_all add: patch_license_def isSales_def patch_license_handler_snd updateLicense_ids)

lemma patch_license_statuses:
  "\<not> sets_license_status caller (PatchLicense i b) \<Longrightarrow>
   map lic_status (licenses (snd (patch_license e caller i b d))) = map lic_status (licenses d)"
  by (cases caller; cases b)
     (auto simp add: patch_license_def isSales_def patch_license_handler_snd
        updateLicense_statuses sets_license_status_def sales_or_admin_def)

lemma zip_id_status:
  "map (\<lambda>l. (lic_id l, lic_status l)) xs = zip (map lic_id xs) (map lic_status xs)"
  by (induction xs) simp_all

lemma handle_keeps_statuses:
  assumes "\<not> sets_license_status caller r"
  shows "map (\<lambda>l. (lic_id l, lic_status l))
           (take (length (licenses d)) (licenses (snd (handle e caller r d))))
         = map (\<lambda>l. (lic_id l, lic_status l)) (licenses d)"
proof (cases r)
  case (PostLicense b)
  then show ?thesis by (simp add: post_license_licenses)
next
  case (PatchLicense i b)
  let ?d1 = "snd (patch_license e caller i b d)"
  have ids: "map lic_id (licenses ?d1) = map lic_id (licenses d)"
    by (rule patch_license_ids)
  have sts: "map lic_status (licenses ?d1) = map lic_status (licenses d)"
    using assms PatchLicense by (simp add: patch_license_statuses)
  have "length (licenses ?d1) = length (licenses d)"
    using ids by (rule map_eq_imp_length_eq)
  then have "take (length (licenses d)) (licenses ?d1) = licenses ?d1" by simp
  moreover have "map (\<lambda>l. (lic_id l, lic_status l)) (licenses ?d1)
                 = map (\<lambda>l. (lic_id l, lic_status l)) (licenses d)"
    unfolding zip_id_status using ids sts by simp
  ultimately show ?thesis using PatchLicense by simp
qed (simp_all only: handle.simps routes_keep_licenses take_all order_refl)

lemma take_prefix_trans:
  assumes "take (length a) b = a" and "take (length b) c = b"
  shows "take (length a) c = a"
proof -
  have "length (take (length a) b) = length a" using assms(1) by simp
  then have le: "length a \<le> length b" by simp
  have "take (length a) c = take (length a) (take (length b) c)"
    using le by (simp add: min_def)
  then show ?thesis using assms by simp
qed

lemma run_keeps_statuses:
  assumes "list_all (\<lambda>(e, caller, r). \<not> sets_license_status caller r) rs"
  shows "map (\<lambda>l. (lic_id l, lic_status l)) (take (length (licenses d)) (licenses (run rs d)))
         = map (\<lambda>l. (lic_id l, lic_status l)) (licenses d)"
  using assms
proof (induction rs arbitrary: d)
  case Nil
  show ?case by simp
next
  case (Cons x rs)
  obtain e caller r where x: "x = (e, caller, r)" by (cases x) auto
  define K where "K = (\<lambda>d::db. map (\<lambda>l. (lic_id l, lic_status l)) (licenses d))"
  define d1 where "d1 = snd (handle e caller r d)"
  have len: "\<And>d. length (K d) = length (licenses d)" by (simp add: K_def)
  from Cons.prems x have nr: "\<not> sets_license_status caller r"
    and rest: "list_all (\<lambda>(e, caller, r). \<not> sets_license_status caller r) rs" by simp_all
  have s1: "take (length (K d)) (K d1) = K d"
    using handle_keeps_statuses[OF nr, of d e] unfolding K_def d1_def by (simp only: take_map length_map)
  have s2: "take (length (K d1)) (K (run rs d1)) = K d1"
    using Cons.IH[OF rest, of d1] unfolding K_def by (simp only: take_map length_map)
  have "take (length (K d)) (K (run rs d1)) = K d"
    using s1 s2 by (rule take_prefix_trans)
  moreover have "run (x # rs) d = run rs d1" by (simp add: x d1_def)
  ultimately show ?case unfolding K_def by (simp only: take_map length_map)
qed


lemma updateLicense_cases:
  "(\<exists>x. updateLicense e i v d = (Inl x, d))
   \<or> updateLicense e i v d =
        (Inr (find (\<lambda>l. lic_id l = i)
               (map (\<lambda>l. if lic_id l = i then set_license v (now e) l else l) (licenses d))),
         d\<lparr> licenses := map (\<lambda>l. if lic_id l = i then set_license v (now e) l else l) (licenses d) \<rparr>)"
  by (simp add: updateLicense_def stmt_def Let_def)

lemma patch_license_200:
  assumes "fst (fst (patch_license e caller i (Accepted v) d)) = 200"
  shows "licenses (snd (patch_license e caller i (Accepted v) d))
         = map (\<lambda>l. if lic_id l = i then set_license v (now e) l else l) (licenses d)"
proof (cases "sales_or_admin caller")
  case False
  then have "patch_license e caller i (Accepted v) d = ((403, Message ''Forbidden''), d)"
    by (cases caller) (simp_all add: sales_or_admin_def isSales_def patch_license_def)
  with assms show ?thesis by simp
next
  case True
  then have eq: "patch_license e caller i (Accepted v) d = patch_license_handler e i (Accepted v) d"
    by (cases caller) (simp_all add: sales_or_admin_def isSales_def patch_license_def)
  from updateLicense_cases[of e i v d] show ?thesis
  proof
    assume "\<exists>x. updateLicense e i v d = (Inl x, d)"
    then obtain x where "updateLicense e i v d = (Inl x, d)" ..
    then have "fst (fst (patch_license_handler e i (Accepted v) d)) \<noteq> 200"
      by (cases x) (simp_all add: patch_license_handler_def try_catch_def await_def parse_def resolve_def)
    with assms eq show ?thesis by simp
  next
    assume u: "updateLicense e i v d =
        (Inr (find (\<lambda>l. lic_id l = i)
               (map (\<lambda>l. if lic_id l = i then set_license v (now e) l else l) (licenses d))),
         d\<lparr> licenses := map (\<lambda>l. if lic_id l = i then set_license v (now e) l else l) (licenses d) \<rparr>)"
    have "snd (patch_license_handler e i (Accepted v) d) = snd (updateLicense e i v d)"
      by (simp add: patch_license_handler_snd)
    with u eq show ?thesis by simp
  qed
qed

section \<open>Facts about the small database\<close>

lemma now_env_ex: "now env_ex = 1705312800000"
  by (simp add: now_def env_ex_def getTime_def days_from_civil_def msPerDay_def)

lemma outage_env_ex: "outage env_ex = {}"
  by (simp add: env_ex_def)

lemma licenses_db_ex: "licenses db_ex = [license_ex1, license_ex2]"
  by (simp add: db_ex_def)

lemma patch_status_ex:
  "patch_license env_ex (Some sales_ex) 1 (Accepted (no_fields\<lparr> pl_status := Some Active \<rparr>)) db_ex
   = ((200, LicenseJson (license_ex1\<lparr> lic_status := Active, lic_updatedAt := 1705312800000 \<rparr>)),
      db_ex\<lparr> licenses := [license_ex1\<lparr> lic_status := Active, lic_updatedAt := 1705312800000 \<rparr>, license_ex2] \<rparr>)"
  by (simp add: patch_license_def isSales_def sales_ex_def patch_license_handler_def
        try_catch_def await_def parse_def resolve_def updateLicense_def stmt_def
        dangling_def taken_def overflows_def set_license_def orElse_def no_fields_def
        now_env_ex db_ex_def license_ex1_def license_ex2_def outage_env_ex)

section \<open>The expiring-licenses query\<close>

text \<open>
  C9. \<open>getExpiringLicenses(daysThreshold)\<close> is a pure query: for every database, every
  threshold and every environment (also one in which the statement fails) the database
  after the call is the database before it, so no license's status, notificationsSent
  or lastChecked changes. The same holds for the dashboard route built on it.
\<close>

theorem getExpiringLicenses_pure:
  "snd (getExpiringLicenses e daysThreshold d) = d
   \<and> snd (dashboard_expiring_licenses e caller d) = d"
  by (simp add: selects_snd dashboard_expiring_licenses_snd)

section \<open>License status\<close>

text \<open>
  C1, as the claim states it, fails: a sales user's PATCH of the revoked license 1 with
  the payload \<open>{ status: "active" }\<close> is answered with 200 and leaves the license
  active.
\<close>

theorem revoked_terminal_counterexample:
  "map (\<lambda>l. (lic_id l, lic_status l)) (licenses db_ex) = [(1, Revoked), (2, Active)]
   \<and> map (\<lambda>l. (lic_id l, lic_status l))
        (licenses (run [(env_ex, Some sales_ex,
                         PatchLicense 1 (Accepted (no_fields\<lparr> pl_status := Some Active \<rparr>)))] db_ex))
      = [(1, Active), (2, Active)]"
  by (simp add: patch_status_ex) (simp add: db_ex_def license_ex1_def license_ex2_def)

text \<open>
  C1, amended. A license's status, revoked included, is changed by no sequence of
  requests that contains no PATCH of a license by a sales or admin caller with a
  \<open>status\<close> field: every license present before the run is present after it at the
  same position with the same id and status. A PATCH that carries \<open>status = s\<close> and is
  answered with 200 sets the status of the license with that id to \<open>s\<close>, whatever its
  status was, and leaves the status of every other license as it was.
\<close>

theorem license_status_changes_only_by_status_patch:
  "(list_all (\<lambda>(e, caller, r). \<not> sets_license_status caller r) rs \<longrightarrow>
      map (\<lambda>l. (lic_id l, lic_status l)) (take (length (licenses d)) (licenses (run rs d)))
        = map (\<lambda>l. (lic_id l, lic_status l)) (licenses d))
   \<and> (pl_status v = Some s \<and> fst (fst (patch_license e caller i (Accepted v) d0)) = 200 \<longrightarrow>
      map lic_status (licenses (snd (patch_license e caller i (Accepted v) d0)))
        = map (\<lambda>l. if lic_id l = i then s else lic_status l) (licenses d0))"
proof (intro conjI impI)
  assume "list_all (\<lambda>(e, caller, r). \<not> sets_license_status caller r) rs"
  then show "map (\<lambda>l. (lic_id l, lic_status l)) (take (length (licenses d)) (licenses (run rs d)))
        = map (\<lambda>l. (lic_id l, lic_status l)) (licenses d)"
    by (rule run_keeps_statuses)
next
  assume a: "pl_status v = Some s \<and> fst (fst (patch_license e caller i (Accepted v) d0)) = 200"
  then have "licenses (snd (patch_license e caller i (Accepted v) d0))
         = map (\<lambda>l. if lic_id l = i then set_license v (now e) l else l) (licenses d0)"
    by (simp add: patch_license_200)
  then show "map lic_status (licenses (snd (patch_license e caller i (Accepted v) d0)))
        = map (\<lambda>l. if lic_id l = i then s else lic_status l) (licenses d0)"
    using a by (simp add: comp_def orElse_def if_distrib cong: if_cong)
qed

theorem license_status_changes_only_by_status_patch_witness:
  "list_all (\<lambda>(e, caller, r). \<not> sets_license_status caller r) requests_ex
   \<and> map (\<lambda>l. (lic_id l, lic_status l)) (take 2 (licenses (run requests_ex db_ex)))
       = [(1, Revoked), (2, Active)]
   \<and> fst (fst (patch_license env_ex (Some sales_ex) 1
                 (Accepted (no_fields\<lparr> pl_status := Some Expired \<rparr>)) db_ex)) = 200
   \<and> map lic_status (licenses (snd (patch_license env_ex (Some sales_ex) 1
                 (Accepted (no_fields\<lparr> pl_status := Some Expired \<rparr>)) db_ex)))
       = [Expired, Active]"
proof -
  have p1: "list_all (\<lambda>(e, caller, r). \<not> sets_license_status caller r) requests_ex"
    by (simp add: requests_ex_def sets_license_status_def sales_or_admin_def support_ex_def
          no_fields_def)
  have c1: "map (\<lambda>l. (lic_id l, lic_status l))
              (take (length (licenses db_ex)) (licenses (run requests_ex db_ex)))
            = map (\<lambda>l. (lic_id l, lic_status l)) (licenses db_ex)"
    using license_status_changes_only_by_status_patch [THEN conjunct1, rule_format, OF p1] .
  have p2: "pl_status (no_fields\<lparr> pl_status := Some Expired \<rparr>) = Some Expired
            \<and> fst (fst (patch_license env_ex (Some sales_ex) 1
                 (Accepted (no_fields\<lparr> pl_status := Some Expired \<rparr>)) db_ex)) = 200"
    by (simp add: patch_license_def isSales_def sales_ex_def patch_license_handler_def
          try_catch_def await_def parse_def resolve_def updateLicense_def stmt_def
          dangling_def taken_def overflows_def no_fields_def db_ex_def license_ex1_def
          license_ex2_def outage_env_ex)
  have c2: "map lic_status (licenses (snd (patch_license env_ex (Some sales_ex) 1
                 (Accepted (no_fields\<lparr> pl_status := Some Expired \<rparr>)) db_ex)))
            = map (\<lambda>l. if lic_id l = 1 then Expired else lic_status l) (licenses db_ex)"
    using license_status_changes_only_by_status_patch [THEN conjunct2, rule_format, OF p2] .
  have c1': "map (\<lambda>l. (lic_id l, lic_status l)) (take 2 (licenses (run requests_ex db_ex)))
             = [(1, Revoked), (2, Active)]"
    using c1 by (simp add: licenses_db_ex license_ex1_def license_ex2_def numeral_2_eq_2)
  have c2': "map lic_status (licenses (snd (patch_license env_ex (Some sales_ex) 1
                 (Accepted (no_fields\<lparr> pl_status := Some Expired \<rparr>)) db_ex)))
             = [Expired, Active]"
    using c2 by (simp add: licenses_db_ex license_ex1_def license_ex2_def)
  from p1 c1' p2 [THEN conjunct2] c2' show ?thesis by (intro conjI)
qed

lemma isSales_admits:
  "sales_or_admin caller \<Longrightarrow> isSales caller (\<lambda>u. h) d = h d"
  by (cases caller) (simp_all add: sales_or_admin_def isSales_def)

lemma isSales_rejects:
  "\<not> sales_or_admin caller \<Longrightarrow> isSales caller h d = ((403, Message ''Forbidden''), d)"
  by (cases caller) (simp_all add: sales_or_admin_def isSales_def)

lemmas gated_routes = post_license_def patch_license_def post_subscription_def
  patch_subscription_def post_transaction_def

section \<open>Access policy\<close>

text \<open>
  C8. Creating or patching (so also revoking or renewing) a license, creating or
  patching a subscription, and creating a transaction all pass through \<open>isSales\<close>:
  a caller who is neither sales nor admin (or is not authenticated) is answered
  403 Forbidden and the database is unchanged; for a sales or admin caller the gate
  hands the request to the route's handler.
\<close>

theorem entitlement_mutations_role_gated:
  "(\<not> sales_or_admin caller \<longrightarrow>
       post_license e caller lb d = ((403, Message ''Forbidden''), d)
     \<and> patch_license e caller i plb d = ((403, Message ''Forbidden''), d)
     \<and> post_subscription e caller sb d = ((403, Message ''Forbidden''), d)
     \<and> patch_subscription e caller j psb d = ((403, Message ''Forbidden''), d)
     \<and> post_transaction e caller tb d = ((403, Message ''Forbidden''), d))
   \<and> (sales_or_admin caller \<longrightarrow>
       post_license e caller lb d = post_license_handler e lb d
     \<and> patch_license e caller i plb d = patch_license_handler e i plb d
     \<and> post_subscription e caller sb d = post_subscription_handler e sb d
     \<and> patch_subscription e caller j psb d = patch_subscription_handler e j psb d
     \<and> post_transaction e caller tb d = post_transaction_handler e tb d)"
  by (simp add: gated_routes isSales_admits isSales_rejects)

theorem entitlement_mutations_role_gated_witness:
  "\<not> sales_or_admin (Some support_ex)
   \<and> post_license env_ex (Some support_ex) (Accepted new_license_ex) db_ex
       = ((403, Message ''Forbidden''), db_ex)
   \<and> patch_license env_ex (Some support_ex) 1 (Accepted (no_fields\<lparr> pl_status := Some Revoked \<rparr>)) db_ex
       = ((403, Message ''Forbidden''), db_ex)
   \<and> post_transaction env_ex (Some support_ex) (Accepted failed_payment_ex) db_ex
       = ((403, Message ''Forbidden''), db_ex)
   \<and> sales_or_admin (Some sales_ex)
   \<and> patch_license env_ex (Some sales_ex) 1 (Accepted (no_fields\<lparr> pl_status := Some Active \<rparr>)) db_ex
       = patch_license_handler env_ex 1 (Accepted (no_fields\<lparr> pl_status := Some Active \<rparr>)) db_ex
   \<and> fst (fst (patch_license_handler env_ex 1 (Accepted (no_fields\<lparr> pl_status := Some Active \<rparr>)) db_ex)) = 200"
proof -
  have n: "\<not> sales_or_admin (Some support_ex)"
    by (simp add: sales_or_admin_def support_ex_def)
  have y: "sales_or_admin (Some sales_ex)"
    by (simp add: sales_or_admin_def sales_ex_def)
  note rej = entitlement_mutations_role_gated [THEN conjunct1, rule_format, OF n]
  note adm = entitlement_mutations_role_gated [THEN conjunct2, rule_format, OF y]
  have r: "fst (fst (patch_license_handler env_ex 1 (Accepted (no_fields\<lparr> pl_status := Some Active \<rparr>)) db_ex)) = 200"
    using patch_status_ex adm [THEN conjunct2, THEN conjunct1, of env_ex 1 "Accepted (no_fields\<lparr> pl_status := Some Active \<rparr>)" db_ex]
    by simp
  from n y r show ?thesis
    using rej [THEN conjunct1] rej [THEN conjunct2, THEN conjunct1]
      rej [THEN conjunct2, THEN conjunct2, THEN conjunct2, THEN conjunct2]
      adm [THEN conjunct2, THEN conjunct1]
    by (intro conjI)
qed

section \<open>License creation\<close>

lemma post_license_handler_created:
  assumes "post_license_handler e (Accepted v) d = ((201, LicenseJson l), d')"
  shows "lic_status l = orElse (il_status v) Active \<and> licenses d' = licenses d @ [l]"
proof -
  define w where "w = (if il_licenseKey v = [] then v\<lparr> il_licenseKey := generateLicenseKey e \<rparr> else v)"
  have st: "il_status w = il_status v" by (simp add: w_def)
  have h: "post_license_handler e (Accepted v) d =
        (case createLicense e w d of
           (Inr x, d1) \<Rightarrow> ((201, LicenseJson x), d1)
         | (Inl ZodError, d1) \<Rightarrow> ((400, InvalidData ''Invalid license data''), d1)
         | (Inl _, d1) \<Rightarrow> ((500, Message ''Error creating license''), d1))"
    unfolding post_license_handler_def try_catch_def await_def parse_def resolve_def
    by (cases "createLicense e w d") (simp add: w_def Let_def split: sum.splits exn.splits)
  have c: "(\<exists>x. createLicense e w d = (Inl x, d))
       \<or> (\<exists>row. createLicense e w d = (Inr row, d\<lparr> licenses := licenses d @ [row], licenses_id_seq := licenses_id_seq d + 1 \<rparr>)
                \<and> lic_status row = orElse (il_status w) Active)"
    by (simp add: createLicense_def stmt_def Let_def)
  from c show ?thesis
  proof
    assume "\<exists>x. createLicense e w d = (Inl x, d)"
    then obtain x where "createLicense e w d = (Inl x, d)" ..
    with h assms show ?thesis by (cases x) simp_all
  next
    assume "\<exists>row. createLicense e w d = (Inr row, d\<lparr> licenses := licenses d @ [row], licenses_id_seq := licenses_id_seq d + 1 \<rparr>)
                \<and> lic_status row = orElse (il_status w) Active"
    then obtain row where "createLicense e w d = (Inr row, d\<lparr> licenses := licenses d @ [row], licenses_id_seq := licenses_id_seq d + 1 \<rparr>)"
      and "lic_status row = orElse (il_status w) Active" by blast
    with h assms st show ?thesis by auto
  qed
qed

text \<open>
  C10. A license-creation request whose accepted payload has no \<open>status\<close> field and
  which is answered with 201 has created a license with status active, appended to the
  table as it is returned: the row is inserted with the schema default and never passes
  through pending.
\<close>

theorem post_license_default_status_active:
  assumes "il_status v = None"
    and "post_license e caller (Accepted v) d = ((201, LicenseJson l), d')"
  shows "lic_status l = Active \<and> licenses d' = licenses d @ [l]"
proof (cases "sales_or_admin caller")
  case True
  then have "post_license e caller (Accepted v) d = post_license_handler e (Accepted v) d"
    by (simp add: post_license_def isSales_admits)
  with assms(2) have "post_license_handler e (Accepted v) d = ((201, LicenseJson l), d')" by simp
  from post_license_handler_created[OF this] assms(1) show ?thesis by (simp add: orElse_def)
next
  case False
  then have "post_license e caller (Accepted v) d = ((403, Message ''Forbidden''), d)"
    by (simp add: post_license_def isSales_rejects)
  with assms(2) show ?thesis by simp
qed

lemma generateLicenseKey_env_ex: "generateLicenseKey env_ex = ''LIC-123E4567E89B42D3-20240115''"
  by (simp add: generateLicenseKey_def env_ex_def toUpperCase_def format_yyyyMMdd_def addLeadingZeros_def)

lemma post_license_ex:
  "post_license env_ex (Some sales_ex) (Accepted new_license_ex) db_ex
   = ((201, LicenseJson created_ex),
      db_ex\<lparr> licenses := [license_ex1, license_ex2, created_ex], licenses_id_seq := 4 \<rparr>)"
  by (simp add: post_license_def isSales_def sales_ex_def post_license_handler_def
        try_catch_def await_def parse_def resolve_def createLicense_def stmt_def
        dangling_def taken_def overflows_def toDate_def msPerDay_def orElse_def
        new_license_ex_def now_env_ex generateLicenseKey_env_ex
        db_ex_def license_ex1_def license_ex2_def subscription_ex_def outage_env_ex created_ex_def
        Let_def)

theorem post_license_default_status_active_witness:
  "il_status new_license_ex = None
   \<and> post_license env_ex (Some sales_ex) (Accepted new_license_ex) db_ex
       = ((201, LicenseJson created_ex),
          db_ex\<lparr> licenses := [license_ex1, license_ex2, created_ex], licenses_id_seq := 4 \<rparr>)
   \<and> lic_status created_ex = Active"
proof -
  have a: "il_status new_license_ex = None" by (simp add: new_license_ex_def)
  from post_license_default_status_active [OF a post_license_ex] a post_license_ex
  show ?thesis by (intro conjI) simp_all
qed

section \<open>Renewal through PATCH\<close>

lemma find_updated_license:
  "find (\<lambda>l. lic_id l = i) (map (\<lambda>l. if lic_id l = i then set_license v t l else l) xs)
     = map_option (set_license v t) (find (\<lambda>l. lic_id l = i) xs)"
  by (induction xs) simp_all

lemma set_license_renewal:
  "set_license (no_fields\<lparr> pl_expirationDate := Some x, pl_notificationsSent := Some n \<rparr>) t l
   = l\<lparr> lic_expirationDate := toDate x, lic_notificationsSent := n, lic_updatedAt := t \<rparr>"
  by (simp add: set_license_def no_fields_def orElse_def)

text \<open>The answer of the handler is read off the outcome of \<open>updateLicense\<close>.\<close>

lemma patch_license_handler_answer:
  "fst (patch_license_handler e i (Accepted v) d) =
     (case fst (updateLicense e i v d) of
        Inl ZodError \<Rightarrow> (400, InvalidData ''Invalid license data'')
      | Inl _ \<Rightarrow> (500, Message ''Error updating license'')
      | Inr None \<Rightarrow> (404, Message ''License not found'')
      | Inr (Some l) \<Rightarrow> (200, LicenseJson l))"
  unfolding patch_license_handler_def try_catch_def await_def parse_def resolve_def
  by (cases "updateLicense e i v d")
     (simp split: sum.splits exn.splits option.splits)

lemma patch_license_200_result:
  assumes "patch_license e caller i (Accepted v) d = ((200, b), d')"
    and "find (\<lambda>l. lic_id l = i) (licenses d) = Some l"
  shows "b = LicenseJson (set_license v (now e) l)
       \<and> d' = d\<lparr> licenses := map (\<lambda>l. if lic_id l = i then set_license v (now e) l else l)
                                  (licenses d) \<rparr>"
proof (cases "sales_or_admin caller")
  case False
  then have "patch_license e caller i (Accepted v) d = ((403, Message ''Forbidden''), d)"
    by (simp add: patch_license_def isSales_rejects)
  with assms(1) show ?thesis by simp
next
  case True
  then have eq: "patch_license_handler e i (Accepted v) d = ((200, b), d')"
    using assms(1) by (simp add: patch_license_def isSales_admits)
  then have ans: "fst (patch_license_handler e i (Accepted v) d) = (200, b)"
    and st: "snd (patch_license_handler e i (Accepted v) d) = d'" by simp_all
  from updateLicense_cases[of e i v d] show ?thesis
  proof
    assume "\<exists>x. updateLicense e i v d = (Inl x, d)"
    then obtain x where "updateLicense e i v d = (Inl x, d)" ..
    with ans show ?thesis
      unfolding patch_license_handler_answer by (cases x) simp_all
  next
    assume u: "updateLicense e i v d =
        (Inr (find (\<lambda>l. lic_id l = i)
               (map (\<lambda>l. if lic_id l = i then set_license v (now e) l else l) (licenses d))),
         d\<lparr> licenses := map (\<lambda>l. if lic_id l = i then set_license v (now e) l else l) (licenses d) \<rparr>)"
    have f: "fst (updateLicense e i v d) = Inr (Some (set_license v (now e) l))"
      using u assms(2) by (simp add: find_updated_license)
    have "b = LicenseJson (set_license v (now e) l)"
      using ans unfolding patch_license_handler_answer f by simp
    moreover have "d' = snd (updateLicense e i v d)"
      using st by (simp add: patch_license_handler_snd)
    ultimately show ?thesis using u by simp
  qed
qed

text \<open>Whether a row satisfies a test, without the row.\<close>

lemma find_some_iff:
  "map_option (\<lambda>_. ()) (find P xs) = (if \<exists>x\<in>set xs. P x then Some () else None)"
proof (cases "\<exists>x\<in>set xs. P x")
  case True
  then have "find P xs \<noteq> None" by (auto simp add: find_None_iff)
  with True show ?thesis by auto
next
  case False
  then have "find P xs = None" by (auto simp add: find_None_iff)
  with False show ?thesis by simp
qed

lemma updated_license_found:
  "map_option (\<lambda>_. ())
     (find (\<lambda>l. lic_id l = i) (map (\<lambda>l. if lic_id l = i then set_license v t l else l) xs))
   = (if i \<in> lic_id ` set xs then Some () else None)"
proof -
  have "map_option (\<lambda>_. ()) (map_option (set_license v t) (find (\<lambda>l. lic_id l = i) xs))
        = map_option (\<lambda>_. ()) (find (\<lambda>l. lic_id l = i) xs)"
    by (simp add: option.map_comp comp_def)
  also have "\<dots> = (if \<exists>x\<in>set xs. lic_id x = i then Some () else None)"
    by (rule find_some_iff)
  also have "\<dots> = (if i \<in> lic_id ` set xs then Some () else None)"
    by (simp add: image_iff eq_commute)
  finally show ?thesis by (simp only: find_updated_license)
qed

lemma updateLicense_outcome:
  "map_sum id (map_option (\<lambda>_. ())) (fst (updateLicense e i v d)) =
     (if Licenses \<in> outage e then Inl StatementFailed
      else if overflows int4 (pl_notificationsSent v) then Inl OutOfRange
      else if i \<in> lic_id ` set (licenses d)
              \<and> dangling (pl_subscriptionId v) (sub_id ` set (subscriptions d))
        then Inl ForeignKeyViolation
      else if i \<in> lic_id ` set (licenses d)
              \<and> taken (pl_licenseKey v)
                  (lic_licenseKey ` set (filter (\<lambda>l. lic_id l \<noteq> i) (licenses d)))
        then Inl UniqueViolation
      else if i \<in> lic_id ` set (licenses d) then Inr (Some ())
      else Inr None)"
  unfolding updateLicense_def stmt_def Let_def
  by (simp add: updated_license_found del: set_map set_filter)

lemma updateLicense_outcome_ignores_status:
  "map_sum id (map_option (\<lambda>_. ()))
     (fst (updateLicense e i v (d\<lparr> licenses := map (\<lambda>l. l\<lparr> lic_status := f l \<rparr>) (licenses d) \<rparr>)))
   = map_sum id (map_option (\<lambda>_. ())) (fst (updateLicense e i v d))"
proof -
  have ids: "lic_id ` set (map (\<lambda>l. l\<lparr> lic_status := f l \<rparr>) xs) = lic_id ` set xs" for xs
    by (simp add: image_image)
  have keys: "lic_licenseKey ` set (filter (\<lambda>l. lic_id l \<noteq> i) (map (\<lambda>l. l\<lparr> lic_status := f l \<rparr>) xs))
              = lic_licenseKey ` set (filter (\<lambda>l. lic_id l \<noteq> i) xs)" for xs
    by (induction xs) simp_all
  show ?thesis
    unfolding updateLicense_outcome by (simp add: ids keys del: set_map set_filter)
qed

lemma patch_license_code:
  "fst (fst (patch_license_handler e i (Accepted v) d)) =
     (case map_sum id (map_option (\<lambda>_. ())) (fst (updateLicense e i v d)) of
        Inl ZodError \<Rightarrow> 400 | Inl _ \<Rightarrow> 500 | Inr None \<Rightarrow> 404 | Inr (Some _) \<Rightarrow> 200)"
  unfolding patch_license_handler_answer
  by (simp split: sum.splits exn.splits option.splits)

lemma patch_license_code_ignores_status:
  "fst (fst (patch_license e caller i (Accepted v)
               (d\<lparr> licenses := map (\<lambda>l. l\<lparr> lic_status := f l \<rparr>) (licenses d) \<rparr>)))
   = fst (fst (patch_license e caller i (Accepted v) d))"
proof (cases "sales_or_admin caller")
  case False
  then show ?thesis by (simp add: patch_license_def isSales_rejects)
next
  case True
  then show ?thesis
    by (simp only: patch_license_def isSales_admits patch_license_code
          updateLicense_outcome_ignores_status)
qed

text \<open>
  C4, amended. The server has no renewal operation and no InvalidTransition error; the
  fields a renewal touches are written through \<open>PATCH /api/licenses/:id\<close>, which never
  reads the license's status: the status code of the answer is the same whatever the
  statuses of the licenses are. Whenever such a PATCH with a payload carrying
  \<open>expirationDate = x\<close> and \<open>notificationsSent = n\<close> is answered with 200, the license
  with that id, be it active, pending, expired or revoked, has its expiration date set
  to the calendar date of \<open>x\<close>, its notification counter to \<open>n\<close> and \<open>updatedAt\<close> to the
  current time, every other field and every other license staying as it was. The new
  expiration date is the caller's: the subscription's billing period is not consulted.
\<close>

theorem patch_license_sets_renewal_fields:
  "(find (\<lambda>l. lic_id l = i) (licenses d) = Some l
    \<and> patch_license e caller i
         (Accepted (no_fields\<lparr> pl_expirationDate := Some x, pl_notificationsSent := Some n \<rparr>)) d
        = ((200, b), d')
    \<longrightarrow> b = LicenseJson (l\<lparr> lic_expirationDate := toDate x, lic_notificationsSent := n,
                              lic_updatedAt := now e \<rparr>)
      \<and> d' = d\<lparr> licenses :=
                  map (\<lambda>l. if lic_id l = i
                           then l\<lparr> lic_expirationDate := toDate x, lic_notificationsSent := n,
                                   lic_updatedAt := now e \<rparr>
                           else l) (licenses d) \<rparr>)
   \<and> fst (fst (patch_license e caller i
                 (Accepted (no_fields\<lparr> pl_expirationDate := Some x, pl_notificationsSent := Some n \<rparr>))
                 (d\<lparr> licenses := map (\<lambda>l. l\<lparr> lic_status := f l \<rparr>) (licenses d) \<rparr>)))
     = fst (fst (patch_license e caller i
                 (Accepted (no_fields\<lparr> pl_expirationDate := Some x, pl_notificationsSent := Some n \<rparr>))
                 d))"
proof (intro conjI impI)
  let ?v = "no_fields\<lparr> pl_expirationDate := Some x, pl_notificationsSent := Some n \<rparr>"
  assume a: "find (\<lambda>l. lic_id l = i) (licenses d) = Some l
             \<and> patch_license e caller i (Accepted ?v) d = ((200, b), d')"
  from patch_license_200_result [OF a [THEN conjunct2] a [THEN conjunct1]]
  have r: "b = LicenseJson (set_license ?v (now e) l)
           \<and> d' = d\<lparr> licenses := map (\<lambda>l. if lic_id l = i then set_license ?v (now e) l else l)
                                      (licenses d) \<rparr>" .
  from r show "b = LicenseJson (l\<lparr> lic_expirationDate := toDate x, lic_notificationsSent := n,
                              lic_updatedAt := now e \<rparr>)"
    by (simp only: set_license_renewal)
  from r show "d' = d\<lparr> licenses :=
                  map (\<lambda>l. if lic_id l = i
                           then l\<lparr> lic_expirationDate := toDate x, lic_notificationsSent := n,
                                   lic_updatedAt := now e \<rparr>
                           else l) (licenses d) \<rparr>"
    by (simp only: set_license_renewal)
next
  show "fst (fst (patch_license e caller i
                 (Accepted (no_fields\<lparr> pl_expirationDate := Some x, pl_notificationsSent := Some n \<rparr>))
                 (d\<lparr> licenses := map (\<lambda>l. l\<lparr> lic_status := f l \<rparr>) (licenses d) \<rparr>)))
     = fst (fst (patch_license e caller i
                 (Accepted (no_fields\<lparr> pl_expirationDate := Some x, pl_notificationsSent := Some n \<rparr>))
                 d))"
    by (rule patch_license_code_ignores_status)
qed

lemma find_license_ex1: "find (\<lambda>l. lic_id l = 1) (licenses db_ex) = Some license_ex1"
  by (simp add: licenses_db_ex license_ex1_def)

lemma find_license_ex2: "find (\<lambda>l. lic_id l = 2) (licenses db_ex) = Some license_ex2"
  by (simp add: licenses_db_ex license_ex1_def license_ex2_def)

lemma sales_ex_admitted: "sales_or_admin (Some sales_ex)"
  by (simp add: sales_or_admin_def sales_ex_def)

text \<open>A renewal of the active license 2 whose payload names 15:30 on 2024-02-04.\<close>

lemma patch_renewal_ex2:
  "patch_license env_ex (Some sales_ex) 2
     (Accepted (no_fields\<lparr> pl_expirationDate := Some 1707060600000, pl_notificationsSent := Some 0 \<rparr>))
     db_ex
   = ((200, LicenseJson (license_ex2\<lparr> lic_expirationDate := 1707004800000,
                                       lic_notificationsSent := 0,
                                       lic_updatedAt := 1705312800000 \<rparr>)),
      db_ex\<lparr> licenses := [license_ex1,
                            license_ex2\<lparr> lic_expirationDate := 1707004800000,
                                        lic_notificationsSent := 0,
                                        lic_updatedAt := 1705312800000 \<rparr>] \<rparr>)"
  by (simp add: patch_license_def isSales_def sales_ex_def patch_license_handler_def
        try_catch_def await_def parse_def resolve_def updateLicense_def stmt_def
        dangling_def taken_def overflows_def int4_def toDate_def msPerDay_def set_license_def
        orElse_def no_fields_def now_env_ex db_ex_def license_ex1_def license_ex2_def
        outage_env_ex)

theorem patch_license_sets_renewal_fields_witness:
  "find (\<lambda>l. lic_id l = 2) (licenses db_ex) = Some license_ex2
   \<and> patch_license env_ex (Some sales_ex) 2
        (Accepted (no_fields\<lparr> pl_expirationDate := Some 1707060600000, pl_notificationsSent := Some 0 \<rparr>))
        db_ex
      = ((200, LicenseJson (license_ex2\<lparr> lic_expirationDate := 1707004800000,
                                          lic_notificationsSent := 0,
                                          lic_updatedAt := 1705312800000 \<rparr>)),
         db_ex\<lparr> licenses := [license_ex1,
                               license_ex2\<lparr> lic_expirationDate := 1707004800000,
                                           lic_notificationsSent := 0,
                                           lic_updatedAt := 1705312800000 \<rparr>] \<rparr>)
   \<and> toDate 1707060600000 = 1707004800000
   \<and> fst (fst (patch_license env_ex (Some sales_ex) 2
        (Accepted (no_fields\<lparr> pl_expirationDate := Some 1707060600000, pl_notificationsSent := Some 0 \<rparr>))
        (db_ex\<lparr> licenses := map (\<lambda>l. l\<lparr> lic_status := Pending \<rparr>) (licenses db_ex) \<rparr>)))
      = 200"
proof -
  have t: "toDate 1707060600000 = 1707004800000"
    by (simp add: toDate_def msPerDay_def)
  note inst = patch_license_sets_renewal_fields
    [where e = env_ex and caller = "Some sales_ex" and i = 2 and d = db_ex and l = license_ex2
       and x = 1707060600000 and n = 0 and f = "\<lambda>l. Pending"]
  have "fst (fst (patch_license env_ex (Some sales_ex) 2
        (Accepted (no_fields\<lparr> pl_expirationDate := Some 1707060600000, pl_notificationsSent := Some 0 \<rparr>))
        (db_ex\<lparr> licenses := map (\<lambda>l. l\<lparr> lic_status := Pending \<rparr>) (licenses db_ex) \<rparr>)))
      = 200"
    using inst [THEN conjunct2] by (simp add: patch_renewal_ex2)
  with find_license_ex2 patch_renewal_ex2 t show ?thesis by (intro conjI)
qed

text \<open>
  C4, as the claim states it, fails: a renewal of the revoked license 1 (a new
  expiration date of 2024-02-29 and a notification counter of zero) is answered with 200,
  not with an error, and the license's fields change.
\<close>

theorem renew_invalid_transition_counterexample:
  "lic_status license_ex1 = Revoked
   \<and> find (\<lambda>l. lic_id l = 1) (licenses db_ex) = Some license_ex1
   \<and> patch_license env_ex (Some sales_ex) 1
        (Accepted (no_fields\<lparr> pl_expirationDate := Some 1709164800000, pl_notificationsSent := Some 0 \<rparr>)) db_ex
      = ((200, LicenseJson (license_ex1\<lparr> lic_expirationDate := 1709164800000, lic_notificationsSent := 0,
                                          lic_updatedAt := 1705312800000 \<rparr>)),
         db_ex\<lparr> licenses := [license_ex1\<lparr> lic_expirationDate := 1709164800000, lic_notificationsSent := 0,
                                           lic_updatedAt := 1705312800000 \<rparr>, license_ex2] \<rparr>)
   \<and> license_ex1\<lparr> lic_expirationDate := 1709164800000, lic_notificationsSent := 0,
                   lic_updatedAt := 1705312800000 \<rparr> \<noteq> license_ex1"
proof -
  have a: "lic_status license_ex1 = Revoked" by (simp add: license_ex1_def)
  have b: "patch_license env_ex (Some sales_ex) 1
        (Accepted (no_fields\<lparr> pl_expirationDate := Some 1709164800000, pl_notificationsSent := Some 0 \<rparr>)) db_ex
      = ((200, LicenseJson (license_ex1\<lparr> lic_expirationDate := 1709164800000, lic_notificationsSent := 0,
                                          lic_updatedAt := 1705312800000 \<rparr>)),
         db_ex\<lparr> licenses := [license_ex1\<lparr> lic_expirationDate := 1709164800000, lic_notificationsSent := 0,
                                           lic_updatedAt := 1705312800000 \<rparr>, license_ex2] \<rparr>)"
    by (simp add: patch_license_def isSales_def sales_ex_def patch_license_handler_def
        try_catch_def await_def parse_def resolve_def updateLicense_def stmt_def
        dangling_def taken_def overflows_def int4_def toDate_def msPerDay_def set_license_def
        orElse_def no_fields_def now_env_ex db_ex_def license_ex1_def license_ex2_def
        outage_env_ex)
  have c: "license_ex1\<lparr> lic_expirationDate := 1709164800000, lic_notificationsSent := 0,
                   lic_updatedAt := 1705312800000 \<rparr> \<noteq> license_ex1"
    by (simp add: license_ex1_def)
  from a find_license_ex1 b c show ?thesis by (intro conjI)
qed

section \<open>Transactions and invoices\<close>

lemma createTransaction_cases:
  "(\<exists>x. x \<noteq> ZodError \<and> createTransaction e v d = (Inl x, d))
   \<or> (\<not> dangling (it_invoiceId v) (inv_id ` set (invoices d))
      \<and> createTransaction e v d =
           (Inr (transaction_row e v (transactions_id_seq d)),
            d\<lparr> transactions := transactions d @ [transaction_row e v (transactions_id_seq d)],
               transactions_id_seq := transactions_id_seq d + 1 \<rparr>))"
  by (simp add: createTransaction_def stmt_def Let_def)

lemma set_invoice_isPaid_true:
  "set_invoice isPaid_true t x = x\<lparr> inv_isPaid := True, inv_updatedAt := t \<rparr>"
  by (simp add: set_invoice_def isPaid_true_def orElse_def)

lemma updateInvoice_isPaid_true:
  "updateInvoice e X isPaid_true d =
     (if Invoices \<in> outage e then (Inl StatementFailed, d)
      else (Inr (find (\<lambda>x. inv_id x = X)
                   (map (\<lambda>x. if inv_id x = X then x\<lparr> inv_isPaid := True, inv_updatedAt := now e \<rparr> else x)
                        (invoices d))),
            d\<lparr> invoices := map (\<lambda>x. if inv_id x = X then x\<lparr> inv_isPaid := True, inv_updatedAt := now e \<rparr> else x)
                               (invoices d) \<rparr>))"
proof -
  have "\<not> dangling (pi_clientId isPaid_true) A" "\<not> taken (pi_invoiceNumber isPaid_true) B"
    "\<not> dangling (orElse (pi_subscriptionId isPaid_true) None) A"
    "\<not> overflows numeric_10_2 (pi_amount isPaid_true)"
    "\<not> overflows numeric_10_2 (pi_tax isPaid_true)"
    "\<not> overflows numeric_10_2 (pi_totalAmount isPaid_true)" for A B
    by (simp_all add: isPaid_true_def dangling_def taken_def overflows_def orElse_def)
  then show ?thesis
    by (simp add: updateInvoice_def stmt_def Let_def set_invoice_isPaid_true cong: if_cong)
qed

text \<open>The answer of the handler, once the insert has stored its row.\<close>

lemma post_transaction_handler_after_insert:
  assumes "createTransaction e v d = (Inr row, d1)" and "tx_invoiceId row = Some X" and "X \<noteq> 0"
  shows "post_transaction_handler e (Accepted v) d =
           (case updateInvoice e X isPaid_true d1 of
              (Inl _, d2) \<Rightarrow> ((500, Message ''Error creating transaction''), d2)
            | (Inr _, d2) \<Rightarrow> ((201, TransactionJson row), d2))"
  unfolding post_transaction_handler_def try_catch_def await_def parse_def resolve_def
  using assms updateInvoice_isPaid_true [of e X d1]
  by (simp add: truthy_def split: if_splits)

text \<open>
  C2, amended. A transaction is created through \<open>POST /api/transactions\<close> with
  \<open>invoiceId = X\<close>, \<open>X\<close> not null and not zero. Whenever the answer is 201, which is
  when both writes have succeeded, the database is the one before the call with the
  transaction appended and with \<open>isPaid = true\<close> (and \<open>updatedAt\<close> set) on every invoice
  with id \<open>X\<close>, and there is such an invoice, whatever the transaction's status, failed
  and pending included. The two writes are two statements with no enclosing database
  transaction: if the insert stores its row and the update of the invoice then throws,
  a sales or admin caller is answered 500, the transaction row stays inserted and the
  invoices are unchanged.
\<close>

theorem post_transaction_marks_invoice_paid:
  assumes "it_invoiceId v = Some X" and "X \<noteq> 0"
  shows "(fst (fst (post_transaction e caller (Accepted v) d)) = 201 \<longrightarrow>
            X \<in> inv_id ` set (invoices d)
          \<and> post_transaction e caller (Accepted v) d =
              ((201, TransactionJson (transaction_row e v (transactions_id_seq d))),
               d\<lparr> transactions := transactions d @ [transaction_row e v (transactions_id_seq d)],
                  transactions_id_seq := transactions_id_seq d + 1,
                  invoices := map (\<lambda>x. if inv_id x = X
                                        then x\<lparr> inv_isPaid := True, inv_updatedAt := now e \<rparr>
                                        else x) (invoices d) \<rparr>))
       \<and> (sales_or_admin caller \<and> createTransaction e v d = (Inr row, d1)
          \<and> fst (updateInvoice e X isPaid_true d1) = Inl err \<longrightarrow>
            post_transaction e caller (Accepted v) d
              = ((500, Message ''Error creating transaction''), d1)
          \<and> transactions d1 = transactions d @ [row]
          \<and> invoices d1 = invoices d)"
proof (intro conjI impI)
  assume ok: "fst (fst (post_transaction e caller (Accepted v) d)) = 201"
  have adm: "sales_or_admin caller"
  proof (rule ccontr)
    assume "\<not> sales_or_admin caller"
    then have "post_transaction e caller (Accepted v) d = ((403, Message ''Forbidden''), d)"
      by (simp add: post_transaction_def isSales_rejects)
    with ok show False by simp
  qed
  then have h: "post_transaction e caller (Accepted v) d = post_transaction_handler e (Accepted v) d"
    by (simp add: post_transaction_def isSales_admits)
  let ?row = "transaction_row e v (transactions_id_seq d)"
  let ?d1 = "d\<lparr> transactions := transactions d @ [?row],
                transactions_id_seq := transactions_id_seq d + 1 \<rparr>"
  from createTransaction_cases [of e v d]
  have c: "\<not> dangling (it_invoiceId v) (inv_id ` set (invoices d))
           \<and> createTransaction e v d = (Inr ?row, ?d1)"
  proof
    assume "\<exists>x. x \<noteq> ZodError \<and> createTransaction e v d = (Inl x, d)"
    then obtain x where "x \<noteq> ZodError" and "createTransaction e v d = (Inl x, d)" by blast
    then have "fst (fst (post_transaction_handler e (Accepted v) d)) = 500"
      unfolding post_transaction_handler_def try_catch_def await_def parse_def resolve_def
      by (cases x) simp_all
    with ok h show ?thesis by simp
  qed
  have inv: "tx_invoiceId ?row = Some X" using assms(1) by (simp add: transaction_row_def)
  note a = post_transaction_handler_after_insert [OF c [THEN conjunct2] inv assms(2)]
  have up: "Invoices \<notin> outage e"
  proof
    assume "Invoices \<in> outage e"
    then have "fst (fst (post_transaction_handler e (Accepted v) d)) = 500"
      unfolding a by (simp add: updateInvoice_isPaid_true)
    with ok h show False by simp
  qed
  show "X \<in> inv_id ` set (invoices d)"
    using c assms(1) by (simp add: dangling_def)
  show "post_transaction e caller (Accepted v) d =
              ((201, TransactionJson ?row),
               d\<lparr> transactions := transactions d @ [?row],
                  transactions_id_seq := transactions_id_seq d + 1,
                  invoices := map (\<lambda>x. if inv_id x = X
                                        then x\<lparr> inv_isPaid := True, inv_updatedAt := now e \<rparr>
                                        else x) (invoices d) \<rparr>)"
    unfolding h a using up by (simp add: updateInvoice_isPaid_true)
next
  assume b: "sales_or_admin caller \<and> createTransaction e v d = (Inr row, d1)
          \<and> fst (updateInvoice e X isPaid_true d1) = Inl err"
  then have adm: "sales_or_admin caller" and ct: "createTransaction e v d = (Inr row, d1)"
    and ui: "fst (updateInvoice e X isPaid_true d1) = Inl err" by simp_all
  from createTransaction_cases [of e v d] ct
  have r: "row = transaction_row e v (transactions_id_seq d)"
    and d1: "d1 = d\<lparr> transactions := transactions d @ [transaction_row e v (transactions_id_seq d)],
                     transactions_id_seq := transactions_id_seq d + 1 \<rparr>"
    by auto
  have inv: "tx_invoiceId row = Some X" using assms(1) r by (simp add: transaction_row_def)
  have out: "Invoices \<in> outage e"
    using ui by (simp add: updateInvoice_isPaid_true split: if_splits)
  have "post_transaction e caller (Accepted v) d = post_transaction_handler e (Accepted v) d"
    using adm by (simp add: post_transaction_def isSales_admits)
  also have "\<dots> = ((500, Message ''Error creating transaction''), d1)"
    unfolding post_transaction_handler_after_insert [OF ct inv assms(2)]
    using out by (simp add: updateInvoice_isPaid_true)
  finally show "post_transaction e caller (Accepted v) d
              = ((500, Message ''Error creating transaction''), d1)" .
  show "transactions d1 = transactions d @ [row]" using d1 r by simp
  show "invoices d1 = invoices d" using d1 by simp
qed

lemma payment_row_ex_made: "transaction_row env_ex failed_payment_ex 1 = payment_row_ex"
  by (simp add: transaction_row_def failed_payment_ex_def payment_row_ex_def orElse_def now_env_ex)

lemma failed_payment_ex_fields:
  "it_invoiceId failed_payment_ex = Some 1" "it_status failed_payment_ex = Some Failed"
  "it_clientId failed_payment_ex = 1" "it_amount failed_payment_ex = 10825"
  by (simp_all add: failed_payment_ex_def)

lemma db_ex_tables:
  "transactions db_ex = []" "transactions_id_seq db_ex = 1" "invoices db_ex = [invoice_ex]"
  "cl_id ` set (clients db_ex) = {1, 2}"
  by (simp_all add: db_ex_def)

lemma invoice_ex_fields: "inv_id invoice_ex = 1" "inv_isPaid invoice_ex = False"
  by (simp_all add: invoice_ex_def)

lemma createTransaction_ex:
  "Transactions \<notin> outage e \<Longrightarrow> now e = 1705312800000 \<Longrightarrow>
   createTransaction e failed_payment_ex db_ex
     = (Inr payment_row_ex, db_ex\<lparr> transactions := [payment_row_ex], transactions_id_seq := 2 \<rparr>)"
  by (simp add: createTransaction_def stmt_def Let_def overflows_def numeric_10_2_def dangling_def
        failed_payment_ex_fields db_ex_tables invoice_ex_fields)
     (simp add: transaction_row_def failed_payment_ex_def payment_row_ex_def orElse_def)

lemma post_transaction_ex:
  "post_transaction env_ex (Some sales_ex) (Accepted failed_payment_ex) db_ex
     = ((201, TransactionJson payment_row_ex),
        db_ex\<lparr> transactions := [payment_row_ex], transactions_id_seq := 2,
               invoices := [invoice_ex\<lparr> inv_isPaid := True, inv_updatedAt := 1705312800000 \<rparr>] \<rparr>)"
proof -
  have ct: "createTransaction env_ex failed_payment_ex db_ex
     = (Inr payment_row_ex, db_ex\<lparr> transactions := [payment_row_ex], transactions_id_seq := 2 \<rparr>)"
    by (rule createTransaction_ex) (simp_all add: outage_env_ex now_env_ex)
  have p: "tx_invoiceId payment_row_ex = Some 1" by (simp add: payment_row_ex_def)
  have "post_transaction env_ex (Some sales_ex) (Accepted failed_payment_ex) db_ex
        = post_transaction_handler env_ex (Accepted failed_payment_ex) db_ex"
    by (simp add: post_transaction_def isSales_admits sales_ex_admitted)
  also have "\<dots> = ((201, TransactionJson payment_row_ex),
        db_ex\<lparr> transactions := [payment_row_ex], transactions_id_seq := 2,
               invoices := [invoice_ex\<lparr> inv_isPaid := True, inv_updatedAt := 1705312800000 \<rparr>] \<rparr>)"
    unfolding post_transaction_handler_after_insert [OF ct p, simplified]
    by (simp add: updateInvoice_isPaid_true outage_env_ex now_env_ex db_ex_tables invoice_ex_fields)
  finally show ?thesis .
qed

theorem post_transaction_marks_invoice_paid_witness:
  "it_invoiceId failed_payment_ex = Some 1 \<and> (1::int) \<noteq> 0
   \<and> it_status failed_payment_ex = Some Failed
   \<and> fst (fst (post_transaction env_ex (Some sales_ex) (Accepted failed_payment_ex) db_ex)) = 201
   \<and> 1 \<in> inv_id ` set (invoices db_ex)
   \<and> invoices (snd (post_transaction env_ex (Some sales_ex) (Accepted failed_payment_ex) db_ex))
       = [invoice_ex\<lparr> inv_isPaid := True, inv_updatedAt := 1705312800000 \<rparr>]
   \<and> transactions (snd (post_transaction env_ex (Some sales_ex) (Accepted failed_payment_ex) db_ex))
       = [payment_row_ex]
   \<and> tx_status payment_row_ex = Failed
   \<and> sales_or_admin (Some sales_ex)
   \<and> createTransaction (env_ex\<lparr> outage := {Invoices} \<rparr>) failed_payment_ex db_ex
       = (Inr payment_row_ex, db_ex\<lparr> transactions := [payment_row_ex], transactions_id_seq := 2 \<rparr>)
   \<and> fst (updateInvoice (env_ex\<lparr> outage := {Invoices} \<rparr>) 1 isPaid_true
            (db_ex\<lparr> transactions := [payment_row_ex], transactions_id_seq := 2 \<rparr>))
       = Inl StatementFailed
   \<and> post_transaction (env_ex\<lparr> outage := {Invoices} \<rparr>) (Some sales_ex)
         (Accepted failed_payment_ex) db_ex
       = ((500, Message ''Error creating transaction''),
          db_ex\<lparr> transactions := [payment_row_ex], transactions_id_seq := 2 \<rparr>)"
proof -
  let ?e = "env_ex\<lparr> outage := {Invoices} \<rparr>"
  let ?d1 = "db_ex\<lparr> transactions := [payment_row_ex], transactions_id_seq := 2 \<rparr>"
  have n: "now ?e = 1705312800000"
    using now_env_ex by (simp add: now_def)
  have ct: "createTransaction ?e failed_payment_ex db_ex = (Inr payment_row_ex, ?d1)"
    by (rule createTransaction_ex) (simp_all add: n)
  have ui: "fst (updateInvoice ?e 1 isPaid_true ?d1) = Inl StatementFailed"
    by (simp add: updateInvoice_isPaid_true)
  have ok: "fst (fst (post_transaction env_ex (Some sales_ex) (Accepted failed_payment_ex) db_ex)) = 201"
    by (simp add: post_transaction_ex)
  have z: "(1::int) \<noteq> 0" by simp
  note r = post_transaction_marks_invoice_paid [OF failed_payment_ex_fields(1) z,
      THEN conjunct1, rule_format, OF ok]
  have i: "invoices (snd (post_transaction env_ex (Some sales_ex) (Accepted failed_payment_ex) db_ex))
       = [invoice_ex\<lparr> inv_isPaid := True, inv_updatedAt := 1705312800000 \<rparr>]"
    using r [THEN conjunct2]
    by (simp add: now_env_ex db_ex_tables invoice_ex_fields)
  have t: "transactions (snd (post_transaction env_ex (Some sales_ex) (Accepted failed_payment_ex) db_ex))
       = [payment_row_ex]"
    using r [THEN conjunct2]
    by (simp add: db_ex_tables payment_row_ex_made)
  have s: "tx_status payment_row_ex = Failed" by (simp add: payment_row_ex_def)
  note q = post_transaction_marks_invoice_paid [OF failed_payment_ex_fields(1) z,
      THEN conjunct2, rule_format, OF conjI [OF sales_ex_admitted conjI [OF ct ui]]]
  from failed_payment_ex_fields(1) z failed_payment_ex_fields(2) ok r [THEN conjunct1] i t s
    sales_ex_admitted ct ui q [THEN conjunct1]
  show ?thesis by (intro conjI)
qed

text \<open>
  C2, as the claim states it, fails: when the update of the invoice throws after the
  insert, the transaction for invoice 1 is stored and invoice 1 is still unpaid, so the
  two writes are not atomic and the invoice is not paid after the call.
\<close>

theorem transaction_invoice_atomic_counterexample:
  "post_transaction (env_ex\<lparr> outage := {Invoices} \<rparr>) (Some sales_ex) (Accepted failed_payment_ex) db_ex
     = ((500, Message ''Error creating transaction''),
        db_ex\<lparr> transactions := [payment_row_ex], transactions_id_seq := 2 \<rparr>)
   \<and> tx_invoiceId payment_row_ex = Some 1
   \<and> invoices (db_ex\<lparr> transactions := [payment_row_ex], transactions_id_seq := 2 \<rparr>) = [invoice_ex]
   \<and> inv_id invoice_ex = 1
   \<and> inv_isPaid invoice_ex = False"
proof -
  let ?e = "env_ex\<lparr> outage := {Invoices} \<rparr>"
  have n: "now ?e = 1705312800000"
    using now_env_ex by (simp add: now_def)
  have ct: "createTransaction ?e failed_payment_ex db_ex
            = (Inr payment_row_ex, db_ex\<lparr> transactions := [payment_row_ex], transactions_id_seq := 2 \<rparr>)"
    by (rule createTransaction_ex) (simp_all add: n)
  have p: "tx_invoiceId payment_row_ex = Some 1" by (simp add: payment_row_ex_def)
  have "post_transaction ?e (Some sales_ex) (Accepted failed_payment_ex) db_ex
        = post_transaction_handler ?e (Accepted failed_payment_ex) db_ex"
    by (simp add: post_transaction_def isSales_admits sales_ex_admitted)
  also have "\<dots> = ((500, Message ''Error creating transaction''),
        db_ex\<lparr> transactions := [payment_row_ex], transactions_id_seq := 2 \<rparr>)"
    unfolding post_transaction_handler_after_insert [OF ct p, simplified]
    by (simp add: updateInvoice_isPaid_true)
  finally show ?thesis using p by (simp add: db_ex_tables invoice_ex_fields)
qed

section \<open>Which licenses the expiring-licenses query returns\<close>

text \<open>
  The bound of the query is read as a date: a license is returned when it is active and
  its expiration date is before the calendar day that lies \<open>daysThreshold\<close> days after
  today.
\<close>

lemma toDate_addDays: "toDate (addDays t n) = toDate t + n * msPerDay"
proof -
  have "(t + n * msPerDay) div msPerDay = t div msPerDay + n"
    by (simp add: msPerDay_def)
  then show ?thesis by (simp add: toDate_def addDays_def algebra_simps)
qed

lemma getExpiringLicenses_returns:
  "Licenses \<notin> outage e \<Longrightarrow>
   fst (getExpiringLicenses e n d)
     = Inr (filter (\<lambda>l. lic_status l = Active
                        \<and> lic_expirationDate l < toDate (now e) + n * msPerDay) (licenses d))"
  by (simp add: getExpiringLicenses_def stmt_def toDate_addDays)

lemma daysUntilExpiration_ex2: "daysUntilExpiration env_ex license_ex2 = - 10"
  by (simp add: daysUntilExpiration_def differenceInDays_def now_env_ex license_ex2_def msPerDay_def)

lemma daysUntilExpiration_ex1:
  "daysUntilExpiration env_ex (license_ex1\<lparr> lic_status := Active \<rparr>) = 15"
  by (simp add: daysUntilExpiration_def differenceInDays_def now_env_ex license_ex1_def msPerDay_def)

text \<open>
  C3 does not hold of the query. License 2 is active and expired ten days ago, so its
  \<open>daysUntilExpiration\<close> is negative, and \<open>getExpiringLicenses(14)\<close> returns it: the
  query has no test against today. And an active license that expires on 2024-01-31
  has 15 full days left on 2024-01-15 at 10:00, which is within a threshold of 16, and
  \<open>getExpiringLicenses(16)\<close> does not return it: the bound is the date sixteen days
  ahead, and the comparison with it is strict.
\<close>

theorem getExpiringLicenses_returns_expired_license:
  "license_ex2 \<in> set (licenses db_ex)
   \<and> lic_status license_ex2 = Active
   \<and> daysUntilExpiration env_ex license_ex2 = - 10
   \<and> fst (getExpiringLicenses env_ex 14 db_ex) = Inr [license_ex2]
   \<and> daysUntilExpiration env_ex (license_ex1\<lparr> lic_status := Active \<rparr>) = 15
   \<and> fst (getExpiringLicenses env_ex 16
            (db_ex\<lparr> licenses := [license_ex1\<lparr> lic_status := Active \<rparr>] \<rparr>)) = Inr []"
proof -
  have t: "toDate (now env_ex) = 1705276800000"
    by (simp add: now_env_ex toDate_def msPerDay_def)
  have o: "Licenses \<notin> outage env_ex" by (simp add: outage_env_ex)
  have a: "fst (getExpiringLicenses env_ex 14 db_ex) = Inr [license_ex2]"
    by (simp add: getExpiringLicenses_returns [OF o] t msPerDay_def licenses_db_ex)
       (simp add: license_ex1_def license_ex2_def)
  have b: "fst (getExpiringLicenses env_ex 16
            (db_ex\<lparr> licenses := [license_ex1\<lparr> lic_status := Active \<rparr>] \<rparr>)) = Inr []"
    by (simp add: getExpiringLicenses_returns [OF o] t msPerDay_def)
       (simp add: license_ex1_def)
  have m: "license_ex2 \<in> set (licenses db_ex)" by (simp add: licenses_db_ex)
  have s: "lic_status license_ex2 = Active" by (simp add: license_ex2_def)
  from m s daysUntilExpiration_ex2 a daysUntilExpiration_ex1 b show ?thesis by (intro conjI)
qed

section \<open>Dashboard statistics\<close>

text \<open>
  C6. For an authenticated caller the dashboard statistics are always answered with 200
  and all four numbers: each of client count, active-license count, open-ticket count
  and monthly revenue is zero if its own query fails and the value of its own query
  otherwise, whichever of the other queries fail, and the database is unchanged.
\<close>

theorem dashboard_stats_degrades_per_statistic:
  "dashboard_stats e (Some u) d =
     ((200, StatsJson
        (if Clients \<in> outage e then 0 else int (length (clients d)))
        (if Licenses \<in> outage e then 0
         else int (length (filter (\<lambda>l. lic_status l = Active) (licenses d))))
        (if Tickets \<in> outage e then 0
         else int (length (filter (\<lambda>t. tk_status t = New \<or> tk_status t = In_progress)
                                  (tickets d))))
        (if Transactions \<in> outage e then 0
         else sum_list (map tx_amount
                (filter (\<lambda>t. firstDayOfMonth (clock e) \<le> tx_transactionDate t
                             \<and> tx_status t = Completed)
                        (transactions d))))),
      d)"
  by (simp add: dashboard_stats_def isAuthenticated_def catch_all_def await_def or_default_def
        resolve_def stmt_def getClientCount_def getActiveLicensesCount_def
        getOpenTicketsCount_def getMonthlyRevenue_def)

section \<open>Reads by a client user\<close>

text \<open>
  The routes that read one entity, and the list of a subscription's licenses, compare
  the owning client with the caller's and answer 403 on a mismatch.
\<close>

lemma get_subscription_other_client_forbidden:
  assumes "u_role u = Client" and "Subscriptions \<notin> outage e" and "Clients \<notin> outage e"
    and "find (\<lambda>s. sub_id s = i) (subscriptions d) = Some s"
    and "map_option cl_id (find (\<lambda>c. cl_userId c = u_id u) (clients d)) \<noteq> Some (sub_clientId s)"
  shows "get_subscription e (Some u) i d = ((403, Message ''Access denied''), d)"
  using assms
  by (simp add: get_subscription_def isAuthenticated_def catch_all_def await_def resolve_def
        getSubscription_def getClientByUserId_def stmt_def split: option.splits)

lemma get_licenses_other_client_forbidden:
  assumes "u_role u = Client" and "Subscriptions \<notin> outage e" and "Clients \<notin> outage e"
    and "Licenses \<notin> outage e" and "q \<noteq> 0"
    and "find (\<lambda>s. sub_id s = q) (subscriptions d) = Some s"
    and "map_option cl_id (find (\<lambda>c. cl_userId c = u_id u) (clients d)) \<noteq> Some (sub_clientId s)"
  shows "get_licenses e (Some u) (Some q) d = ((403, Message ''Access denied''), d)"
  using assms
  by (simp add: get_licenses_def isAuthenticated_def catch_all_def await_def resolve_def truthy_def
        getSubscription_def getClientByUserId_def getLicensesBySubscription_def stmt_def
        split: option.splits)

lemma find_client_ex:
  "find (\<lambda>c. cl_userId c = u_id client_ex) (clients db_ex)
   = Some \<lparr> cl_id = 2, cl_userId = 20, cl_companyName = ''Globex'', cl_contactEmail = None,
            cl_createdAt = 1704067200000, cl_updatedAt = 1704067200000 \<rparr>"
  by (simp add: db_ex_def client_ex_def)

text \<open>
  C5 does not hold of the list routes that take \<open>?clientId=\<close>: the branch for an
  explicit client id comes before the role test, so the client user 20, whose own
  client is 2, is answered with the subscriptions and the invoices of client 1.
\<close>

theorem client_reads_other_clients_lists:
  "u_role client_ex = Client
   \<and> map_option cl_id (find (\<lambda>c. cl_userId c = u_id client_ex) (clients db_ex)) = Some 2
   \<and> sub_clientId subscription_ex = 1
   \<and> inv_clientId invoice_ex = 1
   \<and> get_subscriptions env_ex (Some client_ex) (Some 1) db_ex
       = ((200, SubscriptionsJson [subscription_ex]), db_ex)
   \<and> get_invoices env_ex (Some client_ex) (Some 1) db_ex
       = ((200, InvoicesJson [invoice_ex]), db_ex)"
proof -
  have a: "sub_clientId subscription_ex = 1" "inv_clientId invoice_ex = 1"
    by (simp_all add: subscription_ex_def invoice_ex_def)
  have b: "subscriptions db_ex = [subscription_ex]" "invoices db_ex = [invoice_ex]"
    by (simp_all add: db_ex_def)
  have s: "get_subscriptions env_ex (Some client_ex) (Some 1) db_ex
       = ((200, SubscriptionsJson [subscription_ex]), db_ex)"
    by (simp add: get_subscriptions_def isAuthenticated_def catch_all_def truthy_def await_def
          resolve_def getSubscriptionsByClient_def stmt_def outage_env_ex a b)
  have i: "get_invoices env_ex (Some client_ex) (Some 1) db_ex
       = ((200, InvoicesJson [invoice_ex]), db_ex)"
    by (simp add: get_invoices_def isAuthenticated_def catch_all_def truthy_def await_def
          resolve_def getInvoicesByClient_def stmt_def outage_env_ex a b)
  have c: "u_role client_ex = Client" by (simp add: client_ex_def)
  have f: "map_option cl_id (find (\<lambda>c. cl_userId c = u_id client_ex) (clients db_ex)) = Some 2"
    by (simp add: find_client_ex)
  from c f a s i show ?thesis by (intro conjI)
qed

section \<open>License keys\<close>

declare digits.simps [simp del]

lemma digits_set: "set (digits n) \<subseteq> set ''0123456789''"
proof (induction n rule: digits.induct)
  case (1 n)
  have m: "''0123456789'' ! k \<in> set ''0123456789''" if "k < 10" for k
    by (rule nth_mem) (use that in simp)
  show ?case
  proof (cases "n < 10")
    case True
    then show ?thesis using m[of n] by (subst digits.simps) simp
  next
    case False
    have "n mod 10 < 10" by simp
    from m[OF this] "1.IH"[OF False] False show ?thesis
      by (subst digits.simps) simp
  qed
qed

lemma digits_length: "n < 10 ^ k \<Longrightarrow> 0 < k \<Longrightarrow> length (digits n) \<le> k"
proof (induction k arbitrary: n)
  case 0
  then show ?case by simp
next
  case (Suc k)
  show ?case
  proof (cases "n < 10")
    case True
    then show ?thesis by (subst digits.simps) simp
  next
    case False
    then have k: "0 < k" using Suc.prems(1) by (cases k) simp_all
    have "n div 10 < 10 ^ k" using Suc.prems(1) by (simp add: less_mult_imp_div_less mult.commute)
    from Suc.IH[OF this k] False show ?thesis by (subst digits.simps) simp
  qed
qed

lemma addLeadingZeros_length:
  "n < 10 ^ k \<Longrightarrow> 0 < k \<Longrightarrow> length (addLeadingZeros n k) = k"
  using digits_length[of n k] by (simp add: addLeadingZeros_def)

lemma addLeadingZeros_set: "set (addLeadingZeros n k) \<subseteq> set ''0123456789''"
  using digits_set[of n] by (auto simp add: addLeadingZeros_def)

lemma format_yyyyMMdd_shape:
  assumes "0 \<le> getFullYear d" and "getFullYear d \<le> 9999" and "getMonth d \<le> 11" and "getDate d \<le> 31"
  shows "length (format_yyyyMMdd d) = 8 \<and> set (format_yyyyMMdd d) \<subseteq> set ''0123456789''"
proof -
  have y: "nat (getFullYear d) < 10 ^ 4" using assms(1,2) by simp
  have m: "Suc (getMonth d) < 10 ^ 2" using assms(3) by simp
  have a: "getDate d < 10 ^ 2" using assms(4) by simp
  have "length (format_yyyyMMdd d) = 8"
    by (simp add: format_yyyyMMdd_def addLeadingZeros_length[OF y] addLeadingZeros_length[OF m]
          addLeadingZeros_length[OF a])
  moreover have "set (format_yyyyMMdd d) \<subseteq> set ''0123456789''"
    using addLeadingZeros_set[of "nat (getFullYear d)" 4] addLeadingZeros_set[of "Suc (getMonth d)" 2]
      addLeadingZeros_set[of "getDate d" 2]
    by (simp add: format_yyyyMMdd_def)
  ultimately show ?thesis by simp
qed

lemma toUpperCase_length: "length (toUpperCase s) = length s"
  by (simp add: toUpperCase_def)

lemma toUpperCase_hex:
  assumes "set s \<subseteq> set ''0123456789abcdef''"
  shows "set (toUpperCase s) \<subseteq> set ''0123456789ABCDEF''"
proof -
  have "(case map_of (zip ''abcdefghijklmnopqrstuvwxyz'' ''ABCDEFGHIJKLMNOPQRSTUVWXYZ'') c of
           Some C \<Rightarrow> C | None \<Rightarrow> c) \<in> set ''0123456789ABCDEF''"
    if "c \<in> set ''0123456789abcdef''" for c
  proof -
    from that have "c = CHR ''0'' \<or> c = CHR ''1'' \<or> c = CHR ''2'' \<or> c = CHR ''3''
        \<or> c = CHR ''4'' \<or> c = CHR ''5'' \<or> c = CHR ''6'' \<or> c = CHR ''7''
        \<or> c = CHR ''8'' \<or> c = CHR ''9'' \<or> c = CHR ''a'' \<or> c = CHR ''b''
        \<or> c = CHR ''c'' \<or> c = CHR ''d'' \<or> c = CHR ''e'' \<or> c = CHR ''f''"
      by simp
    then show ?thesis by (elim disjE) simp_all
  qed
  note up = this
  show ?thesis
    unfolding toUpperCase_def set_map
  proof (rule image_subsetI)
    fix c
    assume "c \<in> set s"
    with assms have "c \<in> set ''0123456789abcdef''" by blast
    then show "(case map_of (zip ''abcdefghijklmnopqrstuvwxyz'' ''ABCDEFGHIJKLMNOPQRSTUVWXYZ'') c of
           Some C \<Rightarrow> C | None \<Rightarrow> c) \<in> set ''0123456789ABCDEF''"
      by (rule up)
  qed
qed

lemma uuid_hex_digits:
  assumes "is_uuid s"
  shows "length (filter (\<lambda>c. c \<noteq> CHR ''-'') s) = 32
       \<and> set (filter (\<lambda>c. c \<noteq> CHR ''-'') s) \<subseteq> set ''0123456789abcdef''"
proof -
  have "length (filter (\<lambda>c. c = CHR ''-'') s) + length (filter (\<lambda>c. \<not> c = CHR ''-'') s) = length s"
    by (rule sum_length_filter_compl)
  then have "length (filter (\<lambda>c. c \<noteq> CHR ''-'') s) = 32"
    using assms by (simp add: is_uuid_def)
  moreover have "set (filter (\<lambda>c. c \<noteq> CHR ''-'') s) \<subseteq> set ''0123456789abcdef''"
  proof
    fix x
    assume "x \<in> set (filter (\<lambda>c. c \<noteq> CHR ''-'') s)"
    then have "x \<in> set s" and n: "x \<noteq> CHR ''-''" by simp_all
    then have "x \<in> set ''0123456789abcdef-''" using assms unfolding is_uuid_def by blast
    with n show "x \<in> set ''0123456789abcdef''" by simp
  qed
  ultimately show ?thesis by simp
qed

text \<open>
  C7, amended. For a well-formed UUID and a date in the years 0 to 9999, the string
  \<open>generateLicenseKey()\<close> returns is \<open>LIC-TOKEN-YYYYMMDD\<close>: the fixed prefix
  \<open>LIC\<close>, a token of exactly 16 upper-case hexadecimal digits, which are the first 16
  hexadecimal digits of the UUID (so the token carries at most 64 bits), and the
  current date as eight decimal digits, the three parts joined by \<open>-\<close>.
\<close>

theorem generateLicenseKey_format:
  assumes "is_uuid (randomUUID e)"
    and "0 \<le> getFullYear (clock e)" and "getFullYear (clock e) \<le> 9999"
    and "getMonth (clock e) \<le> 11" and "getDate (clock e) \<le> 31"
  shows "let token = toUpperCase (take 16 (filter (\<lambda>c. c \<noteq> CHR ''-'') (randomUUID e)));
             stamp = format_yyyyMMdd (clock e)
         in generateLicenseKey e = ''LIC-'' @ token @ ''-'' @ stamp
            \<and> length token = 16 \<and> set token \<subseteq> set ''0123456789ABCDEF''
            \<and> length stamp = 8 \<and> set stamp \<subseteq> set ''0123456789''"
proof -
  let ?hex = "filter (\<lambda>c. c \<noteq> CHR ''-'') (randomUUID e)"
  from uuid_hex_digits[OF assms(1)]
  have l: "length ?hex = 32" and h: "set ?hex \<subseteq> set ''0123456789abcdef''" by simp_all
  have "set (take 16 ?hex) \<subseteq> set ?hex" by (rule set_take_subset)
  from this h have "set (take 16 ?hex) \<subseteq> set ''0123456789abcdef''" by (rule subset_trans)
  then have t: "set (toUpperCase (take 16 ?hex)) \<subseteq> set ''0123456789ABCDEF''"
    by (rule toUpperCase_hex)
  have n: "length (toUpperCase (take 16 ?hex)) = 16"
    using l by (simp add: toUpperCase_length)
  have k: "generateLicenseKey e = ''LIC-'' @ toUpperCase (take 16 ?hex) @ ''-'' @ format_yyyyMMdd (clock e)"
    by (simp add: generateLicenseKey_def)
  from format_yyyyMMdd_shape[OF assms(2-5)] t n k show ?thesis
    unfolding Let_def by (intro conjI) simp_all
qed


lemma is_uuid_ex: "is_uuid (randomUUID env_ex)"
  by (simp add: is_uuid_def env_ex_def)

theorem generateLicenseKey_format_witness:
  "is_uuid (randomUUID env_ex)
   \<and> 0 \<le> getFullYear (clock env_ex) \<and> getFullYear (clock env_ex) \<le> 9999
   \<and> getMonth (clock env_ex) \<le> 11 \<and> getDate (clock env_ex) \<le> 31
   \<and> toUpperCase (take 16 (filter (\<lambda>c. c \<noteq> CHR ''-'') (randomUUID env_ex))) = ''123E4567E89B42D3''
   \<and> format_yyyyMMdd (clock env_ex) = ''20240115''
   \<and> generateLicenseKey env_ex = ''LIC-'' @ ''123E4567E89B42D3'' @ ''-'' @ ''20240115''"
proof -
  have c: "0 \<le> getFullYear (clock env_ex)" "getFullYear (clock env_ex) \<le> 9999"
    "getMonth (clock env_ex) \<le> 11" "getDate (clock env_ex) \<le> 31"
    by (simp_all add: env_ex_def)
  have t: "toUpperCase (take 16 (filter (\<lambda>c. c \<noteq> CHR ''-'') (randomUUID env_ex))) = ''123E4567E89B42D3''"
    by (simp add: env_ex_def toUpperCase_def)
  have s: "format_yyyyMMdd (clock env_ex) = ''20240115''"
    by (simp add: env_ex_def format_yyyyMMdd_def addLeadingZeros_def digits.simps)
  have k: "generateLicenseKey env_ex = ''LIC-'' @ ''123E4567E89B42D3'' @ ''-'' @ ''20240115''"
    using generateLicenseKey_format [OF is_uuid_ex c] unfolding Let_def t s by (rule conjunct1)
  from is_uuid_ex c t s k show ?thesis by (intro conjI)
qed

text \<open>
  C7, as the claim states it, fails: the token of the key has 16 hexadecimal digits,
  which is 64 bits and not 128, and two different UUIDs that agree on their first 16
  digits yield the same key.
\<close>

theorem generateLicenseKey_token_bits_counterexample:
  "generateLicenseKey env_ex = ''LIC-123E4567E89B42D3-20240115''
   \<and> length ''123E4567E89B42D3'' * 4 = (64::nat)
   \<and> is_uuid ''123e4567-e89b-42d3-b111-222222222222''
   \<and> ''123e4567-e89b-42d3-b111-222222222222'' \<noteq> randomUUID env_ex
   \<and> generateLicenseKey (env_ex\<lparr> randomUUID := ''123e4567-e89b-42d3-b111-222222222222'' \<rparr>)
       = generateLicenseKey env_ex"
proof -
  have a: "generateLicenseKey env_ex = ''LIC-123E4567E89B42D3-20240115''"
    by (rule generateLicenseKey_env_ex)
  have b: "generateLicenseKey (env_ex\<lparr> randomUUID := ''123e4567-e89b-42d3-b111-222222222222'' \<rparr>)
           = ''LIC-123E4567E89B42D3-20240115''"
    by (simp add: generateLicenseKey_def env_ex_def toUpperCase_def format_yyyyMMdd_def
          addLeadingZeros_def digits.simps)
  have c: "is_uuid ''123e4567-e89b-42d3-b111-222222222222''"
    by (simp add: is_uuid_def)
  have d: "''123e4567-e89b-42d3-b111-222222222222'' \<noteq> randomUUID env_ex"
    by (simp add: env_ex_def)
  from a b c d show ?thesis by simp
qed

end
